theory Spec2Isabelle
  imports Main "HOL-Library.Word"
begin

unbundle bit_operations_syntax

section \<open>Primitive data: bytes, object identifiers, time\<close>

text \<open>
  The service is written in Go. A \<^verbatim>\<open>[]byte\<close> is a list of 8-bit words, a Go
  \<^verbatim>\<open>string\<close> is a \<^typ>\<open>string\<close>, and a \<^verbatim>\<open>time.Time\<close> is the number of
  nanoseconds since the Unix epoch (an \<^typ>\<open>int\<close>).
\<close>

type_synonym byte = "8 word"
type_synonym bytes = "byte list"
type_synonym time = int

definition Second :: int where
  "Second = 1000000000"

definition Hour :: int where
  "Hour = 3600 * Second"

text \<open>\<^verbatim>\<open>t.Unix()\<close>: whole seconds since the epoch, rounded down.\<close>

definition Unix :: "time \<Rightarrow> int" where
  "Unix t = t div Second"

text \<open>
  \<^verbatim>\<open>primitive.ObjectID\<close> is the array type \<^verbatim>\<open>[12]byte\<close>: a value with exactly
  twelve byte components.
\<close>

datatype ObjectID =
  ObjectID byte byte byte byte byte byte byte byte byte byte byte byte

fun idBytes :: "ObjectID \<Rightarrow> bytes" where
  "idBytes (ObjectID a b c d e f g h i j k l) = [a, b, c, d, e, f, g, h, i, j, k, l]"

definition hexDigit :: "nat \<Rightarrow> char" where
  "hexDigit n = ''0123456789abcdef'' ! n"

definition hexByte :: "byte \<Rightarrow> string" where
  "hexByte b = [hexDigit (unat b div 16), hexDigit (unat b mod 16)]"

text \<open>\<^verbatim>\<open>hex.EncodeToString\<close>: two lower-case digits per byte.\<close>

fun EncodeToString :: "bytes \<Rightarrow> string" where
  "EncodeToString [] = []"
| "EncodeToString (b # bs) = hexByte b @ EncodeToString bs"

text \<open>\<^verbatim>\<open>id.Hex()\<close>: the 24-character lower-case hexadecimal form.\<close>

definition Hex :: "ObjectID \<Rightarrow> string" where
  "Hex x = EncodeToString (idBytes x)"

text \<open>The decoder accepts the digits in either case, as \<^verbatim>\<open>encoding/hex\<close> does.\<close>

definition fromHexChar :: "char \<Rightarrow> nat option" where
  "fromHexChar c =
     (let n = (of_char c :: nat) in
      if 48 \<le> n \<and> n \<le> 57 then Some (n - 48)
      else if 97 \<le> n \<and> n \<le> 102 then Some (n - 97 + 10)
      else if 65 \<le> n \<and> n \<le> 70 then Some (n - 65 + 10)
      else None)"

fun DecodeString :: "string \<Rightarrow> bytes option" where
  "DecodeString [] = Some []"
| "DecodeString [c] = None"
| "DecodeString (c # d # rest) =
     (case fromHexChar c of
        None \<Rightarrow> None
      | Some hi \<Rightarrow>
          (case fromHexChar d of
             None \<Rightarrow> None
           | Some lo \<Rightarrow>
               (case DecodeString rest of
                  None \<Rightarrow> None
                | Some bs \<Rightarrow> Some (of_nat (hi * 16 + lo) # bs))))"

text \<open>
  \<^verbatim>\<open>primitive.ObjectIDFromHex\<close>: the string must have length 24 and decode as
  hexadecimal; otherwise the call returns an error (\<open>None\<close>).
\<close>

definition ObjectIDFromHex :: "string \<Rightarrow> ObjectID option" where
  "ObjectIDFromHex s =
     (if length s \<noteq> 24 then None
      else (case DecodeString s of
              Some [a, b, c, d, e, f, g, h, i, j, k, l] \<Rightarrow>
                Some (ObjectID a b c d e f g h i j k l)
            | _ \<Rightarrow> None))"

section \<open>Documents and collections\<close>

text \<open>
  The structs of \<^verbatim>\<open>internal/models\<close>. Record fields are global names in
  Isabelle, so the fields of \<^verbatim>\<open>Role\<close>, \<^verbatim>\<open>User\<close>, \<^verbatim>\<open>Task\<close> and
  \<^verbatim>\<open>UserResponse\<close> carry the struct's name as a prefix; \<^verbatim>\<open>AuthContext\<close>
  keeps the source's field names.
\<close>

type_synonym error = string

record Permission =
  Action :: string

record Role =
  Role_ID :: ObjectID
  Role_Name :: string
  Role_Permissions :: "Permission list"

record User =
  User_ID :: ObjectID
  User_FirstName :: string
  User_LastName :: string
  User_Email :: string
  User_Password :: string
  User_RoleID :: ObjectID
  User_ProfilePictureURL :: string
  User_IsEmailVerified :: bool
  User_NeedsPasswordChange :: bool
  User_CreatedAt :: time
  User_UpdatedAt :: time

type_synonym TaskStatus = string

record Task =
  Task_ID :: ObjectID
  Task_Title :: string
  Task_Description :: string
  Task_Status :: TaskStatus
  Task_UserID :: ObjectID
  Task_CreatedAt :: time
  Task_UpdatedAt :: time

record UserResponse =
  Resp_ID :: string
  Resp_FirstName :: string
  Resp_LastName :: string
  Resp_Email :: string
  Resp_RoleName :: string
  Resp_ProfilePictureURL :: string
  Resp_IsEmailVerified :: bool
  Resp_NeedsPasswordChange :: bool
  Resp_CreatedAt :: time
  Resp_UpdatedAt :: time

record UpdateUserRoleRequest =
  RoleName_req :: string

record CreateTaskRequest =
  Title_req :: string
  Description_req :: string
  Status_req :: string

text \<open>The pointer fields of \<^verbatim>\<open>UpdateTaskRequest\<close> are options: \<open>None\<close> is \<^verbatim>\<open>nil\<close>.\<close>

record UpdateTaskRequest =
  Title_upd :: "string option"
  Description_upd :: "string option"
  Status_upd :: "string option"

record AuthContext =
  UserID :: ObjectID
  RoleID :: ObjectID
  RoleName :: string
  Permissions :: "Permission list"
  IsEmailVerified :: bool
  NeedsPasswordChange :: bool

definition NilObjectID :: ObjectID where
  "NilObjectID = ObjectID 0 0 0 0 0 0 0 0 0 0 0 0"

definition StatusTodo :: TaskStatus where
  "StatusTodo = ''todo''"

text \<open>
  \<^verbatim>\<open>models.DefaultRoles\<close>, the compiled-in table used for seeding. The literals
  leave \<^verbatim>\<open>ID\<close> unset, which is the zero value.
\<close>

definition DefaultRoles :: "Role list" where
  "DefaultRoles =
     [\<lparr>Role_ID = NilObjectID, Role_Name = ''Admin'',
        Role_Permissions =
          [\<lparr>Action = ''task:create''\<rparr>, \<lparr>Action = ''task:read_all''\<rparr>,
           \<lparr>Action = ''task:update_all''\<rparr>, \<lparr>Action = ''task:delete_all''\<rparr>,
           \<lparr>Action = ''user:read_all''\<rparr>, \<lparr>Action = ''user:update_role''\<rparr>,
           \<lparr>Action = ''user:update_profile''\<rparr>, \<lparr>Action = ''user:verify_email''\<rparr>,
           \<lparr>Action = ''user:create_admin''\<rparr>,
           \<lparr>Action = ''dashboard:read_metrics''\<rparr>]\<rparr>,
      \<lparr>Role_ID = NilObjectID, Role_Name = ''Manager'',
        Role_Permissions =
          [\<lparr>Action = ''task:create''\<rparr>, \<lparr>Action = ''task:read_all''\<rparr>,
           \<lparr>Action = ''task:update_all''\<rparr>, \<lparr>Action = ''task:delete_all''\<rparr>,
           \<lparr>Action = ''user:update_profile''\<rparr>]\<rparr>,
      \<lparr>Role_ID = NilObjectID, Role_Name = ''User'',
        Role_Permissions =
          [\<lparr>Action = ''task:create''\<rparr>, \<lparr>Action = ''task:read_own''\<rparr>,
           \<lparr>Action = ''task:update_own''\<rparr>, \<lparr>Action = ''task:delete_own''\<rparr>,
           \<lparr>Action = ''user:update_profile''\<rparr>]\<rparr>]"

text \<open>
  The table read as a mapping from role name to permissions: the first entry with
  that name, and no permission when there is none.
\<close>

definition permissionsForRole :: "string \<Rightarrow> Permission list" where
  "permissionsForRole roleName =
     (case find (\<lambda>r. Role_Name r = roleName) DefaultRoles of
        None \<Rightarrow> []
      | Some r \<Rightarrow> Role_Permissions r)"

text \<open>\<^verbatim>\<open>AuthContext.HasPermission\<close>: a linear scan for an equal action string.\<close>

fun hasAction :: "Permission list \<Rightarrow> string \<Rightarrow> bool" where
  "hasAction [] permission = False"
| "hasAction (p # ps) permission =
     (if Action p = permission then True else hasAction ps permission)"

definition HasPermission :: "AuthContext \<Rightarrow> string \<Rightarrow> bool" where
  "HasPermission ac permission = hasAction (Permissions ac) permission"

section \<open>Tokens\<close>

text \<open>
  A claim value is a string or a number; \<^verbatim>\<open>jwt.MapClaims\<close> is kept as an
  association list read with \<^const>\<open>map_of\<close>. A token string is either three
  segments (the header's \<^verbatim>\<open>alg\<close>, the claims and the signature bytes) or
  something that does not split into three decodable segments. The base64url and
  JSON layers of the compact serialisation are not modelled: the bytes that are
  signed are given by a parameter \<open>ss\<close> (the signing string of a header and a claim
  set), and the keyed hash over them by a parameter \<open>mac\<close> (algorithm name, key,
  message).
\<close>

datatype Value = Str string | Num int

type_synonym MapClaims = "(string \<times> Value) list"

datatype TokenString = Malformed string | Compact string MapClaims bytes

record Token =
  Method :: string
  Claims :: MapClaims
  Valid :: bool

type_synonym mac = "string \<Rightarrow> bytes \<Rightarrow> bytes \<Rightarrow> bytes"
type_synonym sstr = "string \<Rightarrow> MapClaims \<Rightarrow> bytes"

text \<open>
  The signing string of a token string: what the library hashes when it signs and
  when it verifies.
\<close>

definition SigningString :: "sstr \<Rightarrow> TokenString \<Rightarrow> bytes" where
  "SigningString ss tokenString =
     (case tokenString of
        Malformed raw \<Rightarrow> []
      | Compact alg claims sig \<Rightarrow> ss alg claims)"

text \<open>
  \<^verbatim>\<open>jwt.NewWithClaims(method, claims).SignedString(key)\<close>. With a byte-slice key
  and claims made of strings and integers the library call has no failing branch.
\<close>

definition SignedString :: "mac \<Rightarrow> sstr \<Rightarrow> string \<Rightarrow> MapClaims \<Rightarrow> bytes \<Rightarrow> error + TokenString" where
  "SignedString mac ss alg claims key = Inr (Compact alg claims (mac alg key (ss alg claims)))"

text \<open>\<^verbatim>\<open>utils.GenerateToken\<close>, \<^verbatim>\<open>GeneratePasswordResetToken\<close>, \<^verbatim>\<open>GenerateVerificationToken\<close>.\<close>

definition GenerateToken ::
  "mac \<Rightarrow> sstr \<Rightarrow> time \<Rightarrow> ObjectID \<Rightarrow> string \<Rightarrow> ObjectID \<Rightarrow> bytes \<Rightarrow> error + TokenString" where
  "GenerateToken mac ss now userID email roleID secretKey =
     SignedString mac ss ''HS256''
       [(''user_id'', Str (Hex userID)),
        (''email'', Str email),
        (''role_id'', Str (Hex roleID)),
        (''exp'', Num (Unix (now + 24 * Hour))),
        (''iss'', Str ''taskflow-api''),
        (''aud'', Str ''taskflow-clients'')]
       secretKey"

definition GeneratePasswordResetToken ::
  "mac \<Rightarrow> sstr \<Rightarrow> time \<Rightarrow> ObjectID \<Rightarrow> bytes \<Rightarrow> error + TokenString" where
  "GeneratePasswordResetToken mac ss now userID secretKey =
     SignedString mac ss ''HS256''
       [(''user_id'', Str (Hex userID)),
        (''exp'', Num (Unix (now + Hour))),
        (''iss'', Str ''taskflow-api-reset'')]
       secretKey"

definition GenerateVerificationToken ::
  "mac \<Rightarrow> sstr \<Rightarrow> time \<Rightarrow> string \<Rightarrow> bytes \<Rightarrow> error + TokenString" where
  "GenerateVerificationToken mac ss now userID secretKey =
     SignedString mac ss ''HS256''
       [(''user_id'', Str userID),
        (''exp'', Num (Unix (now + 24 * Hour))),
        (''iss'', Str ''taskflow-api-verify'')]
       secretKey"

text \<open>
  The key function the validators hand to \<^verbatim>\<open>jwt.Parse\<close>: the method must be
  of type \<^verbatim>\<open>*jwt.SigningMethodHMAC\<close>, which the library registers under the
  names HS256, HS384 and HS512.
\<close>

definition isHMAC :: "string \<Rightarrow> bool" where
  "isHMAC alg = (alg = ''HS256'' \<or> alg = ''HS384'' \<or> alg = ''HS512'')"

definition keyFunc :: "bytes \<Rightarrow> string \<Rightarrow> error + bytes" where
  "keyFunc secret alg =
     (if \<not> isHMAC alg then Inl (''unexpected signing method: '' @ alg) else Inr secret)"

text \<open>
  The expiry check of the library's claim validation: no \<^verbatim>\<open>exp\<close> claim (or the
  number 0) is no expiry; otherwise the current time must be before it.
\<close>

definition verifyExpiresAt :: "MapClaims \<Rightarrow> time \<Rightarrow> error option" where
  "verifyExpiresAt claims now =
     (case map_of claims ''exp'' of
        None \<Rightarrow> None
      | Some (Str v) \<Rightarrow> Some ''token has invalid claims: exp is invalid''
      | Some (Num e) \<Rightarrow>
          if e = 0 then None
          else if now < e * Second then None
          else Some ''token has invalid claims: token is expired'')"

text \<open>
  Modelled from the spec: \<^verbatim>\<open>jwt.Parse\<close> belongs to the golang-jwt library and is
  not among the repository's files. Following \<open>verify\<close> of the specification it
  rejects a malformed token, asks the key function for the key (which is where the
  algorithm is checked), compares the signature with the keyed hash of the signing
  string, and checks the expiry; on success the token is marked valid.
\<close>

definition jwt_Parse ::
  "mac \<Rightarrow> sstr \<Rightarrow> time \<Rightarrow> TokenString \<Rightarrow> (string \<Rightarrow> error + bytes) \<Rightarrow> error + Token" where
  "jwt_Parse mac ss now tokenString kf =
     (case tokenString of
        Malformed raw \<Rightarrow> Inl ''token is malformed''
      | Compact alg claims sig \<Rightarrow>
          (case kf alg of
             Inl err \<Rightarrow> Inl (''token is unverifiable: '' @ err)
           | Inr key \<Rightarrow>
               if sig \<noteq> mac alg key (ss alg claims) then Inl ''token signature is invalid''
               else (case verifyExpiresAt claims now of
                       Some err \<Rightarrow> Inl err
                     | None \<Rightarrow> Inr \<lparr>Method = alg, Claims = claims, Valid = True\<rparr>)))"

section \<open>The store and the services\<close>

text \<open>
  The three collections are lists of documents in insertion order; a query returns
  the first document that matches. \<^verbatim>\<open>passwordResetTokens\<close> is the package-level
  map of \<^verbatim>\<open>auth_service.go\<close>. Operations that write take the state and return
  the new one. A query answers from the lists. The two password updates take the
  error of the driver's \<^verbatim>\<open>UpdateByID\<close> call as a parameter \<open>driverErr\<close>
  (\<open>None\<close> when the call goes through; a lost connection or the five-second
  deadline otherwise); a call that fails writes nothing.
\<close>

record State =
  usersCollection :: "User list"
  rolesCollection :: "Role list"
  tasksCollection :: "Task list"
  passwordResetTokens :: "TokenString \<rightharpoonup> ObjectID"

text \<open>
  \<^verbatim>\<open>collection.UpdateByID(ctx, id, {"$set": ...})\<close>: the first document with that
  \<^verbatim>\<open>_id\<close> is replaced by its image under the update; the modified count is 1
  when that changes the document and 0 when no document matches or nothing changes.
\<close>

fun UpdateByID :: "('a \<Rightarrow> ObjectID) \<Rightarrow> ObjectID \<Rightarrow> ('a \<Rightarrow> 'a) \<Rightarrow> 'a list \<Rightarrow> nat \<times> 'a list" where
  "UpdateByID idOf i upd [] = (0, [])"
| "UpdateByID idOf i upd (d # ds) =
     (if idOf d = i then (if upd d = d then (0, d # ds) else (1, upd d # ds))
      else (case UpdateByID idOf i upd ds of (n, ds') \<Rightarrow> (n, d # ds')))"

text \<open>
  \<^verbatim>\<open>collection.InsertOne\<close>: the server refuses a second document with the same
  \<^verbatim>\<open>_id\<close>.
\<close>

definition InsertOne :: "('a \<Rightarrow> ObjectID) \<Rightarrow> 'a \<Rightarrow> 'a list \<Rightarrow> error + 'a list" where
  "InsertOne idOf d ds =
     (if find (\<lambda>x. idOf x = idOf d) ds \<noteq> None then Inl ''duplicate key error''
      else Inr (ds @ [d]))"

subsection \<open>UserService\<close>

definition GetUserByID :: "State \<Rightarrow> string \<Rightarrow> error + User" where
  "GetUserByID s ident =
     (case ObjectIDFromHex ident of
        None \<Rightarrow> Inl ''invalid user ID format''
      | Some objID \<Rightarrow>
          (case find (\<lambda>u. User_ID u = objID) (usersCollection s) of
             None \<Rightarrow> Inl ''user not found''
           | Some user \<Rightarrow> Inr user))"

definition GetUserByEmail :: "State \<Rightarrow> string \<Rightarrow> error + User" where
  "GetUserByEmail s email =
     (case find (\<lambda>u. User_Email u = email) (usersCollection s) of
        None \<Rightarrow> Inl ''user not found''
      | Some user \<Rightarrow> Inr user)"

definition GetRoleByName :: "State \<Rightarrow> string \<Rightarrow> error + Role" where
  "GetRoleByName s name =
     (case find (\<lambda>r. Role_Name r = name) (rolesCollection s) of
        None \<Rightarrow> Inl ''role not found''
      | Some role \<Rightarrow> Inr role)"

definition GetRoleByID :: "State \<Rightarrow> string \<Rightarrow> error + Role" where
  "GetRoleByID s ident =
     (case ObjectIDFromHex ident of
        None \<Rightarrow> Inl ''invalid role ID format''
      | Some objID \<Rightarrow>
          (case find (\<lambda>r. Role_ID r = objID) (rolesCollection s) of
             None \<Rightarrow> Inl ''role not found''
           | Some role \<Rightarrow> Inr role))"

definition UpdateUserPassword ::
  "time \<Rightarrow> error option \<Rightarrow> State \<Rightarrow> ObjectID \<Rightarrow> string \<Rightarrow> error option \<times> State" where
  "UpdateUserPassword now driverErr s userID hashedPassword =
     (case driverErr of
        Some err \<Rightarrow> (Some err, s)
      | None \<Rightarrow>
          (case UpdateByID User_ID userID
                  (\<lambda>u. u\<lparr>User_Password := hashedPassword, User_UpdatedAt := now\<rparr>)
                  (usersCollection s) of
             (modifiedCount, users') \<Rightarrow>
               if modifiedCount = 0
               then (Some ''user not found or password not changed'',
                     s\<lparr>usersCollection := users'\<rparr>)
               else (None, s\<lparr>usersCollection := users'\<rparr>)))"

definition UpdateUserPasswordAndNeedsChange ::
  "time \<Rightarrow> error option \<Rightarrow> State \<Rightarrow> ObjectID \<Rightarrow> string \<Rightarrow> bool \<Rightarrow> error option \<times> State" where
  "UpdateUserPasswordAndNeedsChange now driverErr s userID hashedPassword needsChange =
     (case driverErr of
        Some err \<Rightarrow> (Some err, s)
      | None \<Rightarrow>
          (case UpdateByID User_ID userID
                  (\<lambda>u. u\<lparr>User_Password := hashedPassword,
                         User_NeedsPasswordChange := needsChange, User_UpdatedAt := now\<rparr>)
                  (usersCollection s) of
             (modifiedCount, users') \<Rightarrow>
               if modifiedCount = 0
               then (Some ''user not found or password/needs_password_change not updated'',
                     s\<lparr>usersCollection := users'\<rparr>)
               else (None, s\<lparr>usersCollection := users'\<rparr>)))"

definition toUserResponse :: "User \<Rightarrow> string \<Rightarrow> UserResponse" where
  "toUserResponse user roleName =
     \<lparr>Resp_ID = Hex (User_ID user),
      Resp_FirstName = User_FirstName user,
      Resp_LastName = User_LastName user,
      Resp_Email = User_Email user,
      Resp_RoleName = roleName,
      Resp_ProfilePictureURL = User_ProfilePictureURL user,
      Resp_IsEmailVerified = User_IsEmailVerified user,
      Resp_NeedsPasswordChange = User_NeedsPasswordChange user,
      Resp_CreatedAt = User_CreatedAt user,
      Resp_UpdatedAt = User_UpdatedAt user\<rparr>"

definition GetUserResponseByID :: "State \<Rightarrow> string \<Rightarrow> error + UserResponse" where
  "GetUserResponseByID s ident =
     (case GetUserByID s ident of
        Inl err \<Rightarrow> Inl err
      | Inr user \<Rightarrow>
          (case GetRoleByID s (Hex (User_RoleID user)) of
             Inl err \<Rightarrow> Inr (toUserResponse user ''Unknown'')
           | Inr role \<Rightarrow> Inr (toUserResponse user (Role_Name role))))"

definition UserService_UpdateUserRole ::
  "time \<Rightarrow> State \<Rightarrow> string \<Rightarrow> string \<Rightarrow> (error + UserResponse) \<times> State" where
  "UserService_UpdateUserRole now s userID newRoleName =
     (case ObjectIDFromHex userID of
        None \<Rightarrow> (Inl ''invalid user ID format'', s)
      | Some objID \<Rightarrow>
          (case GetRoleByName s newRoleName of
             Inl err \<Rightarrow> (Inl ''new role not found'', s)
           | Inr newRole \<Rightarrow>
               (case UpdateByID User_ID objID
                       (\<lambda>u. u\<lparr>User_RoleID := Role_ID newRole, User_UpdatedAt := now\<rparr>)
                       (usersCollection s) of
                  (modifiedCount, users') \<Rightarrow>
                    if modifiedCount = 0
                    then (Inl ''user not found or role not changed'',
                          s\<lparr>usersCollection := users'\<rparr>)
                    else (case GetUserByID (s\<lparr>usersCollection := users'\<rparr>) userID of
                            Inl err \<Rightarrow> (Inl err, s\<lparr>usersCollection := users'\<rparr>)
                          | Inr updatedUser \<Rightarrow>
                              (GetUserResponseByID (s\<lparr>usersCollection := users'\<rparr>)
                                 (Hex (User_ID updatedUser)),
                               s\<lparr>usersCollection := users'\<rparr>)))))"

subsection \<open>TaskService\<close>

text \<open>
  \<^verbatim>\<open>CreateTask\<close> takes the identifier drawn by \<^verbatim>\<open>primitive.NewObjectID()\<close> and
  the clock reading as arguments.
\<close>

definition TaskService_CreateTask :: "ObjectID \<Rightarrow> time \<Rightarrow> State \<Rightarrow> Task \<Rightarrow> (error + Task) \<times> State" where
  "TaskService_CreateTask newID now s task =
     (let task' = task\<lparr>Task_ID := newID, Task_CreatedAt := now, Task_UpdatedAt := now\<rparr> in
      case InsertOne Task_ID task' (tasksCollection s) of
        Inl err \<Rightarrow> (Inl err, s)
      | Inr tasks' \<Rightarrow> (Inr task', s\<lparr>tasksCollection := tasks'\<rparr>))"

definition GetTaskByID :: "State \<Rightarrow> string \<Rightarrow> error + Task" where
  "GetTaskByID s ident =
     (case ObjectIDFromHex ident of
        None \<Rightarrow> Inl ''invalid task ID format''
      | Some objID \<Rightarrow>
          (case find (\<lambda>t. Task_ID t = objID) (tasksCollection s) of
             None \<Rightarrow> Inl ''task not found''
           | Some task \<Rightarrow> Inr task))"

definition applyTaskUpdate :: "time \<Rightarrow> UpdateTaskRequest \<Rightarrow> Task \<Rightarrow> Task" where
  "applyTaskUpdate now update t =
     (let t1 = t\<lparr>Task_UpdatedAt := now\<rparr>;
          t2 = (case Title_upd update of None \<Rightarrow> t1 | Some v \<Rightarrow> t1\<lparr>Task_Title := v\<rparr>);
          t3 = (case Description_upd update of None \<Rightarrow> t2 | Some v \<Rightarrow> t2\<lparr>Task_Description := v\<rparr>)
      in (case Status_upd update of None \<Rightarrow> t3 | Some v \<Rightarrow> t3\<lparr>Task_Status := v\<rparr>))"

definition TaskService_UpdateTask ::
  "time \<Rightarrow> State \<Rightarrow> string \<Rightarrow> UpdateTaskRequest \<Rightarrow> (error + Task) \<times> State" where
  "TaskService_UpdateTask now s ident update =
     (case ObjectIDFromHex ident of
        None \<Rightarrow> (Inl ''invalid task ID format'', s)
      | Some objID \<Rightarrow>
          (case UpdateByID Task_ID objID (applyTaskUpdate now update) (tasksCollection s) of
             (modifiedCount, tasks') \<Rightarrow>
               if modifiedCount = 0
               then (Inl ''task not found or no changes made'', s\<lparr>tasksCollection := tasks'\<rparr>)
               else (case GetTaskByID (s\<lparr>tasksCollection := tasks'\<rparr>) ident of
                       Inl err \<Rightarrow> (Inl err, s\<lparr>tasksCollection := tasks'\<rparr>)
                     | Inr updatedTask \<Rightarrow> (Inr updatedTask, s\<lparr>tasksCollection := tasks'\<rparr>))))"

subsection \<open>AuthService\<close>

text \<open>
  \<^verbatim>\<open>bcrypt.GenerateFromPassword\<close> and \<^verbatim>\<open>bcrypt.CompareHashAndPassword\<close> are
  parameters: \<open>gen\<close> returns the hash or the library's error (the salt it draws is
  part of the parameter), and \<open>cmp hash password\<close> says whether the comparison
  returned no error.
\<close>

type_synonym bcryptGen = "string \<Rightarrow> error + string"
type_synonym bcryptCmp = "string \<Rightarrow> string \<Rightarrow> bool"

definition HashPassword :: "bcryptGen \<Rightarrow> string \<Rightarrow> error + string" where
  "HashPassword gen password = gen password"

definition CheckPasswordHash :: "bcryptCmp \<Rightarrow> string \<Rightarrow> string \<Rightarrow> bool" where
  "CheckPasswordHash cmp password hash = cmp hash password"

record AuthService =
  jwtSecret :: bytes
  passwordResetSecret :: bytes

definition ValidateToken :: "mac \<Rightarrow> sstr \<Rightarrow> time \<Rightarrow> AuthService \<Rightarrow> TokenString \<Rightarrow> error + MapClaims" where
  "ValidateToken mac ss now svc tokenString =
     (case jwt_Parse mac ss now tokenString (keyFunc (jwtSecret svc)) of
        Inl err \<Rightarrow> Inl err
      | Inr token \<Rightarrow> if Valid token then Inr (Claims token) else Inl ''invalid token'')"

definition ValidatePasswordResetToken ::
  "mac \<Rightarrow> sstr \<Rightarrow> time \<Rightarrow> TokenString \<Rightarrow> bytes \<Rightarrow> error + ObjectID" where
  "ValidatePasswordResetToken mac ss now tokenString secretKey =
     (case jwt_Parse mac ss now tokenString (keyFunc secretKey) of
        Inl err \<Rightarrow> Inl err
      | Inr token \<Rightarrow>
          if \<not> Valid token then Inl ''invalid password reset token''
          else (case map_of (Claims token) ''user_id'' of
                  Some (Str userIDHex) \<Rightarrow>
                    (case ObjectIDFromHex userIDHex of
                       None \<Rightarrow> Inl ''invalid user ID format in reset token''
                     | Some userID \<Rightarrow> Inr userID)
                | _ \<Rightarrow> Inl ''user ID claim missing from reset token''))"

text \<open>
  \<^verbatim>\<open>ForgotPassword\<close>. The two goroutines it starts are not part of the call: the
  e-mail has no effect on the state, and the deferred removal is the separate
  operation \<open>SweepResetToken\<close>, which runs an hour later.
\<close>

definition ForgotPassword ::
  "mac \<Rightarrow> sstr \<Rightarrow> time \<Rightarrow> AuthService \<Rightarrow> State \<Rightarrow> string \<Rightarrow> error option \<times> State" where
  "ForgotPassword mac ss now svc s email =
     (case GetUserByEmail s email of
        Inl err \<Rightarrow> (None, s)
      | Inr user \<Rightarrow>
          (case GeneratePasswordResetToken mac ss now (User_ID user) (passwordResetSecret svc) of
             Inl err \<Rightarrow> (Some ''failed to generate reset token'', s)
           | Inr resetToken \<Rightarrow>
               (None,
                s\<lparr>passwordResetTokens := (passwordResetTokens s)(resetToken \<mapsto> User_ID user)\<rparr>)))"

definition SweepResetToken :: "State \<Rightarrow> TokenString \<Rightarrow> State" where
  "SweepResetToken s token = s\<lparr>passwordResetTokens := (passwordResetTokens s)(token := None)\<rparr>"

definition ResetPassword ::
  "bcryptGen \<Rightarrow> time \<Rightarrow> error option \<Rightarrow> State \<Rightarrow> TokenString \<Rightarrow> string \<Rightarrow> error option \<times> State" where
  "ResetPassword gen now driverErr s tokenString newPassword =
     (case passwordResetTokens s tokenString of
        None \<Rightarrow> (Some ''invalid or expired password reset token'', s)
      | Some userID \<Rightarrow>
          (let s1 = s\<lparr>passwordResetTokens := (passwordResetTokens s)(tokenString := None)\<rparr> in
           case HashPassword gen newPassword of
             Inl err \<Rightarrow> (Some ''failed to hash new password'', s1)
           | Inr hashedPassword \<Rightarrow>
               (case UpdateUserPassword now driverErr s1 userID hashedPassword of
                  (Some err, s2) \<Rightarrow> (Some ''failed to update password in database'', s2)
                | (None, s2) \<Rightarrow> (None, s2))))"

definition ChangeTemporaryPassword ::
  "bcryptGen \<Rightarrow> bcryptCmp \<Rightarrow> time \<Rightarrow> error option \<Rightarrow> State \<Rightarrow> ObjectID \<Rightarrow> string \<Rightarrow> string \<Rightarrow>
   error option \<times> State" where
  "ChangeTemporaryPassword gen cmp now driverErr s userID oldPassword newPassword =
     (case GetUserByID s (Hex userID) of
        Inl err \<Rightarrow> (Some ''user not found'', s)
      | Inr user \<Rightarrow>
          if \<not> User_NeedsPasswordChange user
          then (Some ''password change not required for this account'', s)
          else if \<not> CheckPasswordHash cmp oldPassword (User_Password user)
          then (Some ''invalid old password'', s)
          else (case HashPassword gen newPassword of
                  Inl err \<Rightarrow> (Some ''failed to hash new password'', s)
                | Inr hashedNewPassword \<Rightarrow>
                    (case UpdateUserPasswordAndNeedsChange now driverErr s userID
                            hashedNewPassword False of
                       (Some err, s') \<Rightarrow> (Some ''failed to update password'', s')
                     | (None, s') \<Rightarrow> (None, s'))))"

definition AuthenticatedUserContext :: "State \<Rightarrow> ObjectID \<Rightarrow> ObjectID \<Rightarrow> error + AuthContext" where
  "AuthenticatedUserContext s userID roleID =
     (case GetUserByID s (Hex userID) of
        Inl err \<Rightarrow> Inl (''user not found: '' @ err)
      | Inr user \<Rightarrow>
          (case GetRoleByID s (Hex roleID) of
             Inl err \<Rightarrow> Inl (''user role not found: '' @ err)
           | Inr role \<Rightarrow>
               Inr \<lparr>UserID = User_ID user,
                    RoleID = Role_ID role,
                    RoleName = Role_Name role,
                    Permissions = Role_Permissions role,
                    IsEmailVerified = User_IsEmailVerified user,
                    NeedsPasswordChange = User_NeedsPasswordChange user\<rparr>))"

section \<open>Handlers\<close>

text \<open>
  A handler receives the decoded JSON body (\<open>None\<close> when decoding fails), the
  check of \<^verbatim>\<open>validator.Struct\<close> as a parameter \<open>validate\<close> (\<open>Some\<close> message when
  the struct tags are violated), and what \<^verbatim>\<open>middleware.GetAuthContext\<close> finds in
  the request (\<open>None\<close> when there is no context). It returns the response and the
  new state.

  \<^verbatim>\<open>utils.RespondWithJSON\<close> sets the content type and writes the body; it never
  calls \<^verbatim>\<open>WriteHeader\<close> with its \<^verbatim>\<open>code\<close> argument, so the status that goes out
  is the one \<^verbatim>\<open>net/http\<close> sends on the first write.
\<close>

datatype Payload =
  ErrorPayload string
| MessagePayload string
| UserPayload UserResponse
| TaskPayload Task

record Response =
  StatusCode :: nat
  Body :: Payload

definition RespondWithJSON :: "nat \<Rightarrow> Payload \<Rightarrow> Response" where
  "RespondWithJSON code payload = \<lparr>StatusCode = 200, Body = payload\<rparr>"

definition RespondWithError :: "nat \<Rightarrow> string \<Rightarrow> Response" where
  "RespondWithError code message = RespondWithJSON code (ErrorPayload message)"

definition GetAuthContext :: "AuthContext option \<Rightarrow> error + AuthContext" where
  "GetAuthContext val =
     (case val of
        None \<Rightarrow> Inl ''authentication context not found or invalid in request''
      | Some authContext \<Rightarrow> Inr authContext)"

definition UserHandler_UpdateUserRole ::
  "(UpdateUserRoleRequest \<Rightarrow> error option) \<Rightarrow> time \<Rightarrow> State \<Rightarrow> string \<Rightarrow>
   UpdateUserRoleRequest option \<Rightarrow> AuthContext option \<Rightarrow> Response \<times> State" where
  "UserHandler_UpdateUserRole validate now s targetUserID body val =
     (case body of
        None \<Rightarrow> (RespondWithError 400 ''Invalid request payload'', s)
      | Some req \<Rightarrow>
     (case validate req of
        Some err \<Rightarrow> (RespondWithError 400 err, s)
      | None \<Rightarrow>
     (case GetAuthContext val of
        Inl err \<Rightarrow> (RespondWithError 401 err, s)
      | Inr authContext \<Rightarrow>
     (case GetUserByID s targetUserID of
        Inl err \<Rightarrow> (RespondWithError 404 ''Target user not found'', s)
      | Inr targetUser \<Rightarrow>
     (case GetRoleByID s (Hex (User_RoleID targetUser)) of
        Inl err \<Rightarrow>
          (RespondWithError 500 ''Could not determine target user's current role'', s)
      | Inr targetRole \<Rightarrow>
          if Role_Name targetRole = ''Admin'' \<and> RoleName authContext = ''Admin''
             \<and> targetUserID \<noteq> Hex (UserID authContext)
          then (RespondWithError 403 ''You cannot change the role of another Admin.'', s)
          else if RoleName_req req = ''Admin'' \<and> RoleName authContext = ''Admin''
             \<and> targetUserID = Hex (UserID authContext)
          then (RespondWithError 403 ''You cannot change your own role from Admin.'', s)
          else
            (case UserService_UpdateUserRole now s targetUserID (RoleName_req req) of
               (Inl err, s') \<Rightarrow>
                 if err = ''user not found or role not changed'' \<or> err = ''new role not found''
                    \<or> err = ''invalid user ID format''
                 then (RespondWithError 400 err, s')
                 else (RespondWithError 500 ''Failed to update user role'', s')
             | (Inr userResponse, s') \<Rightarrow>
                 (RespondWithJSON 200 (UserPayload userResponse), s')))))))"

definition TaskHandler_CreateTask ::
  "(CreateTaskRequest \<Rightarrow> error option) \<Rightarrow> ObjectID \<Rightarrow> time \<Rightarrow> State \<Rightarrow>
   CreateTaskRequest option \<Rightarrow> AuthContext option \<Rightarrow> Response \<times> State" where
  "TaskHandler_CreateTask validate newID now s body val =
     (case body of
        None \<Rightarrow> (RespondWithError 400 ''Invalid request payload'', s)
      | Some req \<Rightarrow>
     (case validate req of
        Some err \<Rightarrow> (RespondWithError 400 err, s)
      | None \<Rightarrow>
     (case GetAuthContext val of
        Inl err \<Rightarrow> (RespondWithError 401 err, s)
      | Inr authContext \<Rightarrow>
          (let req' = (if Status_req req = [] then req\<lparr>Status_req := StatusTodo\<rparr> else req);
               task = \<lparr>Task_ID = NilObjectID,
                       Task_Title = Title_req req',
                       Task_Description = Description_req req',
                       Task_Status = Status_req req',
                       Task_UserID = UserID authContext,
                       Task_CreatedAt = 0,
                       Task_UpdatedAt = 0\<rparr>
           in case TaskService_CreateTask newID now s task of
                (Inl err, s') \<Rightarrow> (RespondWithError 500 ''Failed to create task'', s')
              | (Inr createdTask, s') \<Rightarrow>
                  (RespondWithJSON 201 (TaskPayload createdTask), s')))))"

definition TaskHandler_UpdateTask ::
  "(UpdateTaskRequest \<Rightarrow> error option) \<Rightarrow> time \<Rightarrow> State \<Rightarrow> string \<Rightarrow>
   UpdateTaskRequest option \<Rightarrow> AuthContext option \<Rightarrow> Response \<times> State" where
  "TaskHandler_UpdateTask validate now s taskID body val =
     (case body of
        None \<Rightarrow> (RespondWithError 400 ''Invalid request payload'', s)
      | Some req \<Rightarrow>
     (case validate req of
        Some err \<Rightarrow> (RespondWithError 400 err, s)
      | None \<Rightarrow>
     (case GetAuthContext val of
        Inl err \<Rightarrow> (RespondWithError 401 err, s)
      | Inr authContext \<Rightarrow>
     (case GetTaskByID s taskID of
        Inl err \<Rightarrow>
          if err = ''task not found'' then (RespondWithError 404 err, s)
          else (RespondWithError 500 ''Failed to retrieve task for update'', s)
      | Inr task \<Rightarrow>
          if \<not> HasPermission authContext ''task:update_all''
             \<and> Task_UserID task \<noteq> UserID authContext
          then (RespondWithError 403 ''You do not have permission to update this task'', s)
          else
            (case TaskService_UpdateTask now s taskID req of
               (Inl err, s') \<Rightarrow>
                 if err = ''task not found or no changes made''
                 then (RespondWithError 404 err, s')
                 else (RespondWithError 500 ''Failed to update task'', s')
             | (Inr updatedTask, s') \<Rightarrow>
                 (RespondWithJSON 200 (TaskPayload updatedTask), s'))))))"

definition AuthHandler_ForgotPassword ::
  "(string \<Rightarrow> error option) \<Rightarrow> mac \<Rightarrow> sstr \<Rightarrow> time \<Rightarrow> AuthService \<Rightarrow> State \<Rightarrow>
   string option \<Rightarrow> Response \<times> State" where
  "AuthHandler_ForgotPassword validate mac ss now svc s body =
     (case body of
        None \<Rightarrow> (RespondWithError 400 ''Invalid request payload'', s)
      | Some email \<Rightarrow>
     (case validate email of
        Some err \<Rightarrow> (RespondWithError 400 err, s)
      | None \<Rightarrow>
          (case ForgotPassword mac ss now svc s email of
             (Some err, s') \<Rightarrow>
               (RespondWithError 500 ''Failed to initiate password reset'', s')
           | (None, s') \<Rightarrow>
               (RespondWithJSON 200
                  (MessagePayload
                     ''If an account with that email exists, a password reset link has been sent.''),
                s'))))"

section \<open>Executions\<close>

text \<open>
  A sequential execution of the password operations is a list of events, each with
  the arguments, the clock reading and, for the two calls that update a password,
  the driver's error of the call. \<open>EvSweep\<close> is the deferred removal that
  \<^verbatim>\<open>ForgotPassword\<close> schedules; it can run at any later point.
\<close>

datatype Event =
  EvForgotPassword string time
| EvResetPassword TokenString string time "error option"
| EvChangeTemporaryPassword ObjectID string string time "error option"
| EvSweep TokenString

fun step :: "mac \<Rightarrow> sstr \<Rightarrow> bcryptGen \<Rightarrow> bcryptCmp \<Rightarrow> AuthService \<Rightarrow> Event \<Rightarrow> State \<Rightarrow> State" where
  "step mac ss gen cmp svc (EvForgotPassword email now) s =
     snd (ForgotPassword mac ss now svc s email)"
| "step mac ss gen cmp svc (EvResetPassword tokenString newPassword now driverErr) s =
     snd (ResetPassword gen now driverErr s tokenString newPassword)"
| "step mac ss gen cmp svc (EvChangeTemporaryPassword userID oldPassword newPassword now driverErr) s =
     snd (ChangeTemporaryPassword gen cmp now driverErr s userID oldPassword newPassword)"
| "step mac ss gen cmp svc (EvSweep token) s = SweepResetToken s token"

fun exec :: "mac \<Rightarrow> sstr \<Rightarrow> bcryptGen \<Rightarrow> bcryptCmp \<Rightarrow> AuthService \<Rightarrow> Event list \<Rightarrow> State \<Rightarrow> State" where
  "exec mac ss gen cmp svc [] s = s"
| "exec mac ss gen cmp svc (ev # evs) s = exec mac ss gen cmp svc evs (step mac ss gen cmp svc ev s)"

text \<open>
  An event issues a given token in a state when it is a \<^verbatim>\<open>ForgotPassword\<close> for
  an address that has a user there and the token generated for that user at that
  clock reading is the given one. A token is reissued along an execution when one
  of its events issues it in the state it runs in.
\<close>

fun issues :: "mac \<Rightarrow> sstr \<Rightarrow> AuthService \<Rightarrow> TokenString \<Rightarrow> Event \<Rightarrow> State \<Rightarrow> bool" where
  "issues mac ss svc token (EvForgotPassword email now) s =
     (case GetUserByEmail s email of
        Inl err \<Rightarrow> False
      | Inr user \<Rightarrow>
          GeneratePasswordResetToken mac ss now (User_ID user) (passwordResetSecret svc)
            = Inr token)"
| "issues mac ss svc token ev s = False"

fun reissued ::
  "mac \<Rightarrow> sstr \<Rightarrow> bcryptGen \<Rightarrow> bcryptCmp \<Rightarrow> AuthService \<Rightarrow> TokenString \<Rightarrow> Event list \<Rightarrow> State \<Rightarrow> bool" where
  "reissued mac ss gen cmp svc token [] s = False"
| "reissued mac ss gen cmp svc token (ev # evs) s =
     (issues mac ss svc token ev s
      \<or> reissued mac ss gen cmp svc token evs (step mac ss gen cmp svc ev s))"

section \<open>The keyed hash\<close>

text \<open>
  \<^verbatim>\<open>crypto/hmac\<close> over a hash \<open>h\<close> with the given block size: a key longer than
  a block is hashed first, and the key is then padded with zero bytes to one block.
\<close>

definition hmacKeyBlock :: "(bytes \<Rightarrow> bytes) \<Rightarrow> nat \<Rightarrow> bytes \<Rightarrow> bytes" where
  "hmacKeyBlock h blocksize key =
     (let k = (if length key > blocksize then h key else key)
      in take blocksize k @ replicate (blocksize - length k) 0)"

definition hmac :: "(bytes \<Rightarrow> bytes) \<Rightarrow> nat \<Rightarrow> bytes \<Rightarrow> bytes \<Rightarrow> bytes" where
  "hmac h blocksize key msg =
     h (map (\<lambda>b. b XOR 0x5c) (hmacKeyBlock h blocksize key)
        @ h (map (\<lambda>b. b XOR 0x36) (hmacKeyBlock h blocksize key) @ msg))"

text \<open>The input of the outer hash application of \<open>hmac\<close>.\<close>

definition hmacOuter :: "(bytes \<Rightarrow> bytes) \<Rightarrow> nat \<Rightarrow> bytes \<Rightarrow> bytes \<Rightarrow> bytes" where
  "hmacOuter h blocksize key msg =
     map (\<lambda>b. b XOR 0x5c) (hmacKeyBlock h blocksize key)
     @ h (map (\<lambda>b. b XOR 0x36) (hmacKeyBlock h blocksize key) @ msg)"

section \<open>Example data\<close>

text \<open>
  A small database used to run the operations on concrete inputs: the three seeded
  roles with identifiers of their own, two administrators (the second still on a
  temporary password), two ordinary users, and one task of the first of them.
\<close>

definition oid :: "nat \<Rightarrow> ObjectID" where
  "oid n = ObjectID 0 0 0 0 0 0 0 0 0 0 0 (of_nat n)"

definition exampleRoles :: "Role list" where
  "exampleRoles =
     [\<lparr>Role_ID = oid 1, Role_Name = ''Admin'', Role_Permissions = permissionsForRole ''Admin''\<rparr>,
      \<lparr>Role_ID = oid 2, Role_Name = ''Manager'', Role_Permissions = permissionsForRole ''Manager''\<rparr>,
      \<lparr>Role_ID = oid 3, Role_Name = ''User'', Role_Permissions = permissionsForRole ''User''\<rparr>]"

definition exampleUser :: "nat \<Rightarrow> string \<Rightarrow> nat \<Rightarrow> bool \<Rightarrow> User" where
  "exampleUser n email role needsChange =
     \<lparr>User_ID = oid n, User_FirstName = ''New'', User_LastName = ''User'',
      User_Email = email, User_Password = ''bcrypt:secret'', User_RoleID = oid role,
      User_ProfilePictureURL = [], User_IsEmailVerified = True,
      User_NeedsPasswordChange = needsChange, User_CreatedAt = 0, User_UpdatedAt = 0\<rparr>"

definition exampleTask :: Task where
  "exampleTask =
     \<lparr>Task_ID = oid 32, Task_Title = ''Write report'', Task_Description = [],
      Task_Status = ''todo'', Task_UserID = oid 18, Task_CreatedAt = 0, Task_UpdatedAt = 0\<rparr>"

definition exampleState :: State where
  "exampleState =
     \<lparr>usersCollection =
        [exampleUser 16 ''alice@example.com'' 1 False,
         exampleUser 17 ''bob@example.com'' 1 True,
         exampleUser 18 ''carol@example.com'' 3 False,
         exampleUser 19 ''dave@example.com'' 3 False],
      rolesCollection = exampleRoles,
      tasksCollection = [exampleTask],
      passwordResetTokens = Map.empty\<rparr>"

definition exampleContext :: "nat \<Rightarrow> nat \<Rightarrow> AuthContext" where
  "exampleContext n role =
     (case AuthenticatedUserContext exampleState (oid n) (oid role) of
        Inr authContext \<Rightarrow> authContext
      | Inl err \<Rightarrow> \<lparr>UserID = NilObjectID, RoleID = NilObjectID, RoleName = [],
                    Permissions = [], IsEmailVerified = False, NeedsPasswordChange = False\<rparr>)"

text \<open>
  Stand-ins for the library parameters on concrete inputs: a password hash that
  refuses passwords of more than 72 bytes, as bcrypt does, with the matching
  comparison; a hash of byte strings for the keyed hash; and a serialisation for
  the signing string.
\<close>

definition exampleGen :: bcryptGen where
  "exampleGen password =
     (if length password > 72 then Inl ''bcrypt: password length exceeds 72 bytes''
      else Inr (''bcrypt:'' @ password))"

definition exampleCmp :: bcryptCmp where
  "exampleCmp hash password = (hash = ''bcrypt:'' @ password)"

definition exampleHash :: "bytes \<Rightarrow> bytes" where
  "exampleHash bs = [sum_list bs, of_nat (length bs)]"

definition exampleSigningString :: sstr where
  "exampleSigningString alg claims =
     map of_char alg @ [46]
     @ concat (map (\<lambda>(k, v). map of_char k
                     @ (case v of Str s \<Rightarrow> map of_char s | Num n \<Rightarrow> [of_int n])) claims)"

definition exampleService :: AuthService where
  "exampleService = \<lparr>jwtSecret = [115, 49], passwordResetSecret = [115, 50]\<rparr>"

definition exampleMac :: mac where
  "exampleMac alg = hmac exampleHash 64"

text \<open>
  The reset token issued to the first ordinary user at clock reading 0, and the
  state after that call of \<^verbatim>\<open>ForgotPassword\<close>.
\<close>

definition exampleResetToken :: TokenString where
  "exampleResetToken =
     (case GeneratePasswordResetToken exampleMac exampleSigningString 0 (oid 18)
             (passwordResetSecret exampleService) of
        Inr token \<Rightarrow> token
      | Inl err \<Rightarrow> Malformed err)"

definition exampleIssued :: State where
  "exampleIssued =
     snd (ForgotPassword exampleMac exampleSigningString 0 exampleService exampleState
            ''carol@example.com'')"

text \<open>The session token issued to the first administrator at clock reading 0.\<close>

definition exampleSessionToken :: TokenString where
  "exampleSessionToken =
     (case GenerateToken exampleMac exampleSigningString 0 (oid 16) ''alice@example.com'' (oid 1)
             (jwtSecret exampleService) of
        Inr token \<Rightarrow> token
      | Inl err \<Rightarrow> Malformed err)"

section \<open>Lemmas\<close>

lemma fromHexChar_hexDigit:
  assumes "n < 16"
  shows "fromHexChar (hexDigit n) = Some n"
proof -
  from assms have "n \<in> {0, 1, 2, 3, 4, 5, 6, 7, 8, 9, 10, 11, 12, 13, 14, 15}"
    by (simp only: insert_iff empty_iff) arith
  then show ?thesis
    by (auto simp: hexDigit_def fromHexChar_def)
qed

lemma DecodeString_EncodeToString:
  "DecodeString (EncodeToString bs) = Some bs"
proof (induction bs)
  case Nil
  show ?case by simp
next
  case (Cons b bs)
  have hi: "unat b div 16 < 16"
    using unsigned_less [of b] by (simp add: div_less_iff_less_mult)
  have lo: "unat b mod 16 < 16"
    by simp
  have "(of_nat (unat b div 16 * 16 + unat b mod 16) :: byte) = b"
    by simp
  with Cons hi lo show ?case
    by (simp add: hexByte_def fromHexChar_hexDigit)
qed

lemma length_EncodeToString:
  "length (EncodeToString bs) = 2 * length bs"
  by (induction bs) (simp_all add: hexByte_def)

lemma ObjectIDFromHex_Hex:
  "ObjectIDFromHex (Hex x) = Some x"
  by (cases x)
    (simp add: ObjectIDFromHex_def Hex_def length_EncodeToString
      DecodeString_EncodeToString del: EncodeToString.simps)


subsection \<open>Collections\<close>

lemma UpdateByID_zero:
  "UpdateByID idOf i upd ds = (0, ds') \<Longrightarrow> ds' = ds"
  by (induction ds arbitrary: ds') (auto split: if_splits prod.splits)

lemma find_UpdateByID_same:
  assumes "\<And>d. idOf (upd d) = idOf d"
  shows "find (\<lambda>d. idOf d = i) (snd (UpdateByID idOf i upd ds)) =
         map_option upd (find (\<lambda>d. idOf d = i) ds)"
  using assms by (induction ds) (auto split: if_splits prod.splits)

lemma find_UpdateByID_other:
  assumes "\<And>d. idOf (upd d) = idOf d" and "j \<noteq> i"
  shows "find (\<lambda>d. idOf d = j) (snd (UpdateByID idOf i upd ds)) = find (\<lambda>d. idOf d = j) ds"
  using assms by (induction ds) (auto split: if_splits prod.splits)

lemma UpdateByID_modified_iff:
  "fst (UpdateByID idOf i upd ds) \<noteq> 0 \<longleftrightarrow>
     (case find (\<lambda>d. idOf d = i) ds of None \<Rightarrow> False | Some d \<Rightarrow> upd d \<noteq> d)"
  by (induction ds) (auto split: if_splits prod.splits)

subsection \<open>The permission model\<close>

lemma hasAction_iff: "hasAction ps p \<longleftrightarrow> p \<in> Action ` set ps"
  by (induction ps) auto

lemma permissionsForRole_unknown:
  assumes "roleName \<noteq> ''Admin''" and "roleName \<noteq> ''Manager''" and "roleName \<noteq> ''User''"
  shows "permissionsForRole roleName = []"
  using assms by (simp add: permissionsForRole_def DefaultRoles_def)

text \<open>
  Claim C9. The default role table has exactly the entries Admin, Manager and User,
  and the set of actions it gives each of them is the canonical one; a permission
  test is membership of the action in the context's permissions, whatever their
  order; and for any other role name the table gives no permission, so every
  permission test on a context built from it fails.
\<close>

theorem DefaultRoles_canonical_permissions:
  "map Role_Name DefaultRoles = [''Admin'', ''Manager'', ''User'']
   \<and> Action ` set (permissionsForRole ''Admin'') =
       {''task:create'', ''task:read_all'', ''task:update_all'', ''task:delete_all'',
        ''user:read_all'', ''user:update_role'', ''user:update_profile'',
        ''user:verify_email'', ''user:create_admin'', ''dashboard:read_metrics''}
   \<and> Action ` set (permissionsForRole ''Manager'') =
       {''task:create'', ''task:read_all'', ''task:update_all'', ''task:delete_all'',
        ''user:update_profile''}
   \<and> Action ` set (permissionsForRole ''User'') =
       {''task:create'', ''task:read_own'', ''task:update_own'', ''task:delete_own'',
        ''user:update_profile''}
   \<and> (\<forall>ac. HasPermission ac permission \<longleftrightarrow> permission \<in> Action ` set (Permissions ac))
   \<and> (roleName \<noteq> ''Admin'' \<and> roleName \<noteq> ''Manager'' \<and> roleName \<noteq> ''User'' \<longrightarrow>
        permissionsForRole roleName = []
        \<and> (\<forall>ac. Permissions ac = permissionsForRole roleName \<longrightarrow>
               \<not> HasPermission ac permission))"
proof -
  have names: "map Role_Name DefaultRoles = [''Admin'', ''Manager'', ''User'']"
    by (simp add: DefaultRoles_def)
  have admin: "Action ` set (permissionsForRole ''Admin'') =
       {''task:create'', ''task:read_all'', ''task:update_all'', ''task:delete_all'',
        ''user:read_all'', ''user:update_role'', ''user:update_profile'',
        ''user:verify_email'', ''user:create_admin'', ''dashboard:read_metrics''}"
    by (simp add: permissionsForRole_def DefaultRoles_def)
  have manager: "Action ` set (permissionsForRole ''Manager'') =
       {''task:create'', ''task:read_all'', ''task:update_all'', ''task:delete_all'',
        ''user:update_profile''}"
    by (simp add: permissionsForRole_def DefaultRoles_def)
  have user: "Action ` set (permissionsForRole ''User'') =
       {''task:create'', ''task:read_own'', ''task:update_own'', ''task:delete_own'',
        ''user:update_profile''}"
    by (simp add: permissionsForRole_def DefaultRoles_def)
  have member: "\<forall>ac. HasPermission ac permission \<longleftrightarrow> permission \<in> Action ` set (Permissions ac)"
    by (simp add: HasPermission_def hasAction_iff)
  have unknown: "roleName \<noteq> ''Admin'' \<and> roleName \<noteq> ''Manager'' \<and> roleName \<noteq> ''User'' \<longrightarrow>
        permissionsForRole roleName = []
        \<and> (\<forall>ac. Permissions ac = permissionsForRole roleName \<longrightarrow>
               \<not> HasPermission ac permission)"
    by (simp add: permissionsForRole_unknown HasPermission_def)
  from names admin manager user member unknown show ?thesis
    by (intro conjI)
qed

theorem DefaultRoles_canonical_permissions_witness:
  "permissionsForRole ''Guest'' = []
   \<and> \<not> HasPermission \<lparr>UserID = NilObjectID, RoleID = NilObjectID, RoleName = ''Guest'',
          Permissions = permissionsForRole ''Guest'', IsEmailVerified = True,
          NeedsPasswordChange = False\<rparr> ''task:create''"
proof -
  have "''Guest'' \<noteq> ''Admin'' \<and> ''Guest'' \<noteq> ''Manager'' \<and> ''Guest'' \<noteq> ''User''"
    by simp
  with DefaultRoles_canonical_permissions [of "''task:create''" "''Guest''"]
  show ?thesis by simp
qed


subsection \<open>Tasks\<close>

text \<open>
  Claim C10. Whatever the request body, the validator and the clock, a call of the
  CreateTask handler either answers with an error and leaves the state as it was,
  or appends exactly one task to the task collection, and the owner of that task is
  the user of the authorization context of the request.
\<close>

theorem CreateTask_owner_is_requester:
  assumes "TaskHandler_CreateTask validate newID now s body val = (resp, s')"
  shows "(s' = s \<and> (\<exists>msg. Body resp = ErrorPayload msg))
       \<or> (\<exists>authContext task.
            val = Some authContext
          \<and> Body resp = TaskPayload task
          \<and> Task_UserID task = UserID authContext
          \<and> s' = s\<lparr>tasksCollection := tasksCollection s @ [task]\<rparr>)"
  using assms
  by (auto simp: TaskHandler_CreateTask_def TaskService_CreateTask_def InsertOne_def
      GetAuthContext_def RespondWithError_def RespondWithJSON_def Let_def
      split: option.splits sum.splits if_splits prod.splits)

theorem CreateTask_owner_is_requester_witness:
  "Body (fst (TaskHandler_CreateTask (\<lambda>r. None) (oid 33) 7 exampleState
        (Some \<lparr>Title_req = ''Plan sprint'', Description_req = [], Status_req = []\<rparr>)
        (Some (exampleContext 18 3)))) =
     TaskPayload \<lparr>Task_ID = oid 33, Task_Title = ''Plan sprint'', Task_Description = [],
       Task_Status = ''todo'', Task_UserID = oid 18, Task_CreatedAt = 7, Task_UpdatedAt = 7\<rparr>
   \<and> UserID (exampleContext 18 3) = oid 18
   \<and> tasksCollection (snd (TaskHandler_CreateTask (\<lambda>r. None) (oid 33) 7 exampleState
        (Some \<lparr>Title_req = ''Plan sprint'', Description_req = [], Status_req = []\<rparr>)
        (Some (exampleContext 18 3)))) =
     [exampleTask,
      \<lparr>Task_ID = oid 33, Task_Title = ''Plan sprint'', Task_Description = [],
       Task_Status = ''todo'', Task_UserID = oid 18, Task_CreatedAt = 7, Task_UpdatedAt = 7\<rparr>]"
proof -
  let ?r = "TaskHandler_CreateTask (\<lambda>r. None) (oid 33) 7 exampleState
        (Some \<lparr>Title_req = ''Plan sprint'', Description_req = [], Status_req = []\<rparr>)
        (Some (exampleContext 18 3))"
  have body: "Body (fst ?r) =
     TaskPayload \<lparr>Task_ID = oid 33, Task_Title = ''Plan sprint'', Task_Description = [],
       Task_Status = ''todo'', Task_UserID = oid 18, Task_CreatedAt = 7, Task_UpdatedAt = 7\<rparr>"
    by code_simp
  have ctx: "UserID (exampleContext 18 3) = oid 18"
    by code_simp
  have tasks: "tasksCollection exampleState = [exampleTask]"
    by (simp add: exampleState_def)
  from CreateTask_owner_is_requester [of "\<lambda>r. None" "oid 33" 7 exampleState
      "Some \<lparr>Title_req = ''Plan sprint'', Description_req = [], Status_req = []\<rparr>"
      "Some (exampleContext 18 3)" "fst ?r" "snd ?r"]
    body ctx tasks
  show ?thesis
    by auto
qed

lemma Task_ID_applyTaskUpdate [simp]: "Task_ID (applyTaskUpdate now update t) = Task_ID t"
  by (simp add: applyTaskUpdate_def Let_def split: option.splits)

lemma TaskService_UpdateTask_result:
  assumes "GetTaskByID s taskID = Inr task"
  shows "GetTaskByID (snd (TaskService_UpdateTask now s taskID req)) taskID
           = Inr (applyTaskUpdate now req task)"
proof -
  from assms obtain objID where oid: "ObjectIDFromHex taskID = Some objID"
    and f: "find (\<lambda>t. Task_ID t = objID) (tasksCollection s) = Some task"
    by (auto simp: GetTaskByID_def split: option.splits)
  have "find (\<lambda>t. Task_ID t = objID)
          (snd (UpdateByID Task_ID objID (applyTaskUpdate now req) (tasksCollection s)))
        = Some (applyTaskUpdate now req task)"
    by (simp add: find_UpdateByID_same f)
  then show ?thesis
    by (cases "UpdateByID Task_ID objID (applyTaskUpdate now req) (tasksCollection s)")
       (simp add: TaskService_UpdateTask_def oid GetTaskByID_def)
qed

text \<open>
  Claim C6. For a request that decodes and validates, made with an authorization
  context on a task that exists: when the context holds \<^verbatim>\<open>task:update_all\<close> or
  its user is the owner of the task, the handler does not answer with the
  permission error, its answer is the one the task service's update gives, and the
  task stored afterwards is the old one with the update applied; otherwise the
  answer is the permission error and the state is unchanged.
\<close>

theorem UpdateTask_own_or_all:
  assumes "validate req = None"
    and "GetTaskByID s taskID = Inr task"
    and "TaskHandler_UpdateTask validate now s taskID (Some req) (Some authContext) = (resp, s')"
  shows "if HasPermission authContext ''task:update_all'' \<or> UserID authContext = Task_UserID task
         then Body resp \<noteq> ErrorPayload ''You do not have permission to update this task''
            \<and> (resp, s') =
                (case TaskService_UpdateTask now s taskID req of
                   (Inl err, s'') \<Rightarrow>
                     (if err = ''task not found or no changes made''
                      then RespondWithError 404 err
                      else RespondWithError 500 ''Failed to update task'', s'')
                 | (Inr updatedTask, s'') \<Rightarrow> (RespondWithJSON 200 (TaskPayload updatedTask), s''))
            \<and> GetTaskByID s' taskID = Inr (applyTaskUpdate now req task)
         else resp = RespondWithError 403 ''You do not have permission to update this task''
            \<and> s' = s"
proof (cases "HasPermission authContext ''task:update_all'' \<or> UserID authContext = Task_UserID task")
  case False
  with assms show ?thesis
    by (auto simp: TaskHandler_UpdateTask_def GetAuthContext_def)
next
  case True
  have eq: "(resp, s') =
                (case TaskService_UpdateTask now s taskID req of
                   (Inl err, s'') \<Rightarrow>
                     (if err = ''task not found or no changes made''
                      then RespondWithError 404 err
                      else RespondWithError 500 ''Failed to update task'', s'')
                 | (Inr updatedTask, s'') \<Rightarrow> (RespondWithJSON 200 (TaskPayload updatedTask), s''))"
    using assms True
    by (auto simp: TaskHandler_UpdateTask_def GetAuthContext_def split: prod.splits sum.splits)
  then have s': "s' = snd (TaskService_UpdateTask now s taskID req)"
    by (auto split: prod.splits sum.splits)
  have body: "Body resp \<noteq> ErrorPayload ''You do not have permission to update this task''"
    using eq by (auto simp: RespondWithError_def RespondWithJSON_def split: prod.splits sum.splits if_splits)
  from True eq body s' TaskService_UpdateTask_result [OF assms(2)] show ?thesis
    by simp
qed


theorem UpdateTask_own_or_all_witness:
  "\<not> HasPermission (exampleContext 18 3) ''task:update_all''
   \<and> \<not> HasPermission (exampleContext 19 3) ''task:update_all''
   \<and> GetTaskByID (snd (TaskHandler_UpdateTask (\<lambda>r. None) 9 exampleState (Hex (oid 32))
        (Some \<lparr>Title_upd = None, Description_upd = None, Status_upd = Some ''done''\<rparr>)
        (Some (exampleContext 18 3)))) (Hex (oid 32))
      = Inr (exampleTask\<lparr>Task_UpdatedAt := 9, Task_Status := ''done''\<rparr>)
   \<and> TaskHandler_UpdateTask (\<lambda>r. None) 9 exampleState (Hex (oid 32))
        (Some \<lparr>Title_upd = None, Description_upd = None, Status_upd = Some ''done''\<rparr>)
        (Some (exampleContext 19 3))
      = (RespondWithError 403 ''You do not have permission to update this task'', exampleState)"
proof -
  let ?req = "\<lparr>Title_upd = None, Description_upd = None, Status_upd = Some ''done''\<rparr>"
  let ?own = "TaskHandler_UpdateTask (\<lambda>r. None) 9 exampleState (Hex (oid 32))
        (Some ?req) (Some (exampleContext 18 3))"
  let ?other = "TaskHandler_UpdateTask (\<lambda>r. None) 9 exampleState (Hex (oid 32))
        (Some ?req) (Some (exampleContext 19 3))"
  have v: "(\<lambda>r. None) ?req = (None :: error option)"
    by simp
  have t: "GetTaskByID exampleState (Hex (oid 32)) = Inr exampleTask"
    by code_simp
  have p18: "\<not> HasPermission (exampleContext 18 3) ''task:update_all''"
    by code_simp
  have p19: "\<not> HasPermission (exampleContext 19 3) ''task:update_all''"
    by code_simp
  have o18: "UserID (exampleContext 18 3) = Task_UserID exampleTask"
    by code_simp
  have o19: "UserID (exampleContext 19 3) \<noteq> Task_UserID exampleTask"
    by code_simp
  have upd: "applyTaskUpdate 9 ?req exampleTask = exampleTask\<lparr>Task_UpdatedAt := 9, Task_Status := ''done''\<rparr>"
    by (simp add: applyTaskUpdate_def)
  have g18: "HasPermission (exampleContext 18 3) ''task:update_all''
             \<or> UserID (exampleContext 18 3) = Task_UserID exampleTask"
    using o18 by simp
  have g19: "\<not> (HasPermission (exampleContext 19 3) ''task:update_all''
             \<or> UserID (exampleContext 19 3) = Task_UserID exampleTask)"
    using p19 o19 by simp
  have own: "GetTaskByID (snd ?own) (Hex (oid 32)) = Inr (applyTaskUpdate 9 ?req exampleTask)"
    using UpdateTask_own_or_all [of "\<lambda>r. None" ?req exampleState "Hex (oid 32)" exampleTask 9
        "exampleContext 18 3" "fst ?own" "snd ?own", OF v t prod.collapse [symmetric]]
    by (simp only: g18 if_True)
  have "fst ?other = RespondWithError 403 ''You do not have permission to update this task''
        \<and> snd ?other = exampleState"
    using UpdateTask_own_or_all [of "\<lambda>r. None" ?req exampleState "Hex (oid 32)" exampleTask 9
        "exampleContext 19 3" "fst ?other" "snd ?other", OF v t prod.collapse [symmetric]]
    by (simp only: g19 if_False)
  then have other: "?other = (RespondWithError 403 ''You do not have permission to update this task'', exampleState)"
    by (simp add: prod_eq_iff)
  from p18 p19 own other upd show ?thesis
    by simp
qed


subsection \<open>Role updates\<close>

lemma GetUserByID_Hex_ID:
  assumes "GetUserByID s (Hex x) = Inr user"
  shows "User_ID user = x"
proof -
  from assms have "find (\<lambda>u. User_ID u = x) (usersCollection s) = Some user"
    by (simp add: GetUserByID_def ObjectIDFromHex_Hex split: option.splits)
  then show ?thesis
    by (auto simp: find_Some_iff)
qed

text \<open>
  Claim C3. When the actor's context carries the role name Admin and the target of
  the request is another user whose current role is named Admin, the UpdateUserRole
  handler changes nothing: the state is returned as it was, whatever permissions the
  context holds, and the answer is an error, which for a body that decodes and
  validates is \<open>You cannot change the role of another Admin.\<close>
\<close>

theorem UpdateUserRole_peer_admin_denied:
  assumes "RoleName authContext = ''Admin''"
    and "GetUserByID s targetUserID = Inr targetUser"
    and "User_ID targetUser \<noteq> UserID authContext"
    and "GetRoleByID s (Hex (User_RoleID targetUser)) = Inr targetRole"
    and "Role_Name targetRole = ''Admin''"
  shows "UserHandler_UpdateUserRole validate now s targetUserID body (Some authContext) =
           ((case body of
               None \<Rightarrow> RespondWithError 400 ''Invalid request payload''
             | Some req \<Rightarrow>
                 (case validate req of
                    Some err \<Rightarrow> RespondWithError 400 err
                  | None \<Rightarrow> RespondWithError 403 ''You cannot change the role of another Admin.'')),
            s)"
proof -
  have "targetUserID \<noteq> Hex (UserID authContext)"
    using assms(2,3) GetUserByID_Hex_ID by blast
  with assms show ?thesis
    by (simp add: UserHandler_UpdateUserRole_def GetAuthContext_def split: option.splits)
qed

theorem UpdateUserRole_peer_admin_denied_witness:
  "UserHandler_UpdateUserRole (\<lambda>r. None) 5 exampleState (Hex (oid 17))
     (Some \<lparr>RoleName_req = ''User''\<rparr>) (Some (exampleContext 16 1)) =
   (RespondWithError 403 ''You cannot change the role of another Admin.'', exampleState)"
proof -
  have h1: "RoleName (exampleContext 16 1) = ''Admin''"
    by code_simp
  have h2: "GetUserByID exampleState (Hex (oid 17)) = Inr (exampleUser 17 ''bob@example.com'' 1 True)"
    by code_simp
  have h3: "User_ID (exampleUser 17 ''bob@example.com'' 1 True) \<noteq> UserID (exampleContext 16 1)"
    by code_simp
  have h4: "GetRoleByID exampleState (Hex (User_RoleID (exampleUser 17 ''bob@example.com'' 1 True)))
              = Inr (hd exampleRoles)"
    by code_simp
  have h5: "Role_Name (hd exampleRoles) = ''Admin''"
    by code_simp
  show ?thesis
    using UpdateUserRole_peer_admin_denied [OF h1 h2 h3 h4 h5, of "\<lambda>r. None" 5
        "Some \<lparr>RoleName_req = ''User''\<rparr>"]
    by simp
qed


text \<open>
  Claim C1, evaluated on the example database. The administrator with identifier
  \<open>oid 16\<close>, with the context the middleware builds for her, asks for her own
  role to become User. Neither guard of the handler fires: the first needs a target
  other than the actor, the second compares the requested role with Admin for
  equality. The request goes through and her role is changed.
\<close>

theorem UpdateUserRole_self_demotion_accepted:
  "AuthenticatedUserContext exampleState (oid 16) (oid 1) = Inr (exampleContext 16 1)
   \<and> RoleName (exampleContext 16 1) = ''Admin''
   \<and> UserID (exampleContext 16 1) = oid 16
   \<and> GetUserByID exampleState (Hex (oid 16)) = Inr (exampleUser 16 ''alice@example.com'' 1 False)
   \<and> fst (UserHandler_UpdateUserRole (\<lambda>r. None) 5 exampleState (Hex (oid 16))
          (Some \<lparr>RoleName_req = ''User''\<rparr>) (Some (exampleContext 16 1))) =
       RespondWithJSON 200
          (UserPayload (toUserResponse
             ((exampleUser 16 ''alice@example.com'' 1 False)\<lparr>User_RoleID := oid 3, User_UpdatedAt := 5\<rparr>)
             ''User''))
   \<and> usersCollection (snd (UserHandler_UpdateUserRole (\<lambda>r. None) 5 exampleState (Hex (oid 16))
          (Some \<lparr>RoleName_req = ''User''\<rparr>) (Some (exampleContext 16 1)))) =
          [(exampleUser 16 ''alice@example.com'' 1 False)\<lparr>User_RoleID := oid 3, User_UpdatedAt := 5\<rparr>,
           exampleUser 17 ''bob@example.com'' 1 True,
           exampleUser 18 ''carol@example.com'' 3 False,
           exampleUser 19 ''dave@example.com'' 3 False]"
  by code_simp


subsection \<open>Forgotten passwords\<close>

text \<open>
  Claim C7. \<^verbatim>\<open>ForgotPassword\<close> returns no error for every e-mail address and
  every state, whether or not a user with that address exists; and the response of
  the HTTP handler is the same in any two states.
\<close>

theorem ForgotPassword_same_outcome:
  "fst (ForgotPassword mac ss now svc s email) = None
   \<and> fst (AuthHandler_ForgotPassword validate mac ss now svc s body) =
       fst (AuthHandler_ForgotPassword validate mac ss now svc s' body)"
proof -
  have a: "fst (ForgotPassword mac ss now svc t e) = None" for t e
    by (simp add: ForgotPassword_def GeneratePasswordResetToken_def SignedString_def
        split: sum.splits)
  have b: "fst (AuthHandler_ForgotPassword validate mac ss now svc t body) =
      (case body of
         None \<Rightarrow> RespondWithError 400 ''Invalid request payload''
       | Some email \<Rightarrow>
           (case validate email of
              Some err \<Rightarrow> RespondWithError 400 err
            | None \<Rightarrow> RespondWithJSON 200 (MessagePayload
                ''If an account with that email exists, a password reset link has been sent.'')))" for t
  proof (cases body)
    case None
    then show ?thesis by (simp add: AuthHandler_ForgotPassword_def)
  next
    case (Some email)
    obtain r t' where r: "ForgotPassword mac ss now svc t email = (r, t')"
      by (cases "ForgotPassword mac ss now svc t email")
    with a [of t email] have "r = None" by simp
    with Some r show ?thesis
      by (simp add: AuthHandler_ForgotPassword_def split: option.splits)
  qed
  show ?thesis
    by (simp add: a b)
qed

theorem ForgotPassword_same_outcome_witness:
  "fst (ForgotPassword (\<lambda>alg key msg. key @ msg) (\<lambda>alg claims. []) 11
          \<lparr>jwtSecret = [1], passwordResetSecret = [2]\<rparr> exampleState ''carol@example.com'') = None
   \<and> fst (ForgotPassword (\<lambda>alg key msg. key @ msg) (\<lambda>alg claims. []) 11
          \<lparr>jwtSecret = [1], passwordResetSecret = [2]\<rparr> exampleState ''nobody@example.com'') = None
   \<and> GetUserByEmail exampleState ''carol@example.com'' = Inr (exampleUser 18 ''carol@example.com'' 3 False)
   \<and> GetUserByEmail exampleState ''nobody@example.com'' = Inl ''user not found''"
proof -
  have known: "GetUserByEmail exampleState ''carol@example.com'' = Inr (exampleUser 18 ''carol@example.com'' 3 False)"
    by code_simp
  have unknown: "GetUserByEmail exampleState ''nobody@example.com'' = Inl ''user not found''"
    by code_simp
  from known unknown
    ForgotPassword_same_outcome [of "\<lambda>alg key msg. key @ msg" "\<lambda>alg claims. []" 11
      "\<lparr>jwtSecret = [1], passwordResetSecret = [2]\<rparr>" exampleState "''carol@example.com''"]
    ForgotPassword_same_outcome [of "\<lambda>alg key msg. key @ msg" "\<lambda>alg claims. []" 11
      "\<lparr>jwtSecret = [1], passwordResetSecret = [2]\<rparr>" exampleState "''nobody@example.com''"]
  show ?thesis
    by simp
qed


subsection \<open>Temporary passwords\<close>

lemma UpdateByID_zero_snd:
  "fst (UpdateByID idOf i upd ds) = 0 \<Longrightarrow> snd (UpdateByID idOf i upd ds) = ds"
  using UpdateByID_zero [of idOf i upd ds] by (cases "UpdateByID idOf i upd ds") simp

lemma GetUserByID_Hex:
  "GetUserByID s (Hex x) =
     (case find (\<lambda>u. User_ID u = x) (usersCollection s) of
        None \<Rightarrow> Inl ''user not found''
      | Some user \<Rightarrow> Inr user)"
  by (simp add: GetUserByID_def ObjectIDFromHex_Hex)












subsection \<open>Password reset\<close>

lemma passwordResetTokens_UpdateUserPassword [simp]:
  "passwordResetTokens (snd (UpdateUserPassword now driverErr s x hashed)) = passwordResetTokens s"
  by (simp add: UpdateUserPassword_def split: prod.splits option.splits)

lemma passwordResetTokens_ChangeTemporaryPassword [simp]:
  "passwordResetTokens (snd (ChangeTemporaryPassword gen cmp now driverErr s x old new))
   = passwordResetTokens s"
  by (simp add: ChangeTemporaryPassword_def UpdateUserPasswordAndNeedsChange_def
      split: sum.splits prod.splits option.splits)

lemma ResetPassword_absent:
  "passwordResetTokens s tok = None \<Longrightarrow>
   ResetPassword gen now driverErr s tok pw = (Some ''invalid or expired password reset token'', s)"
  by (simp add: ResetPassword_def)

lemma passwordResetTokens_ResetPassword:
  "passwordResetTokens (snd (ResetPassword gen now driverErr s tok pw))
   = (passwordResetTokens s)(tok := None)"
proof (cases "passwordResetTokens s tok")
  case None
  then show ?thesis
    by (auto simp: ResetPassword_absent)
next
  case (Some x)
  then show ?thesis
    by (simp add: ResetPassword_def UpdateUserPassword_def Let_def
        split: sum.splits prod.splits option.splits)
qed

lemma step_keeps_absent:
  assumes "passwordResetTokens s tok = None" and "\<not> issues mac ss svc tok ev s"
  shows "passwordResetTokens (step mac ss gen cmp svc ev s) tok = None"
proof (cases ev)
  case (EvForgotPassword email now)
  with assms show ?thesis
    by (auto simp: ForgotPassword_def split: sum.splits)
next
  case (EvResetPassword t pw now d)
  with assms show ?thesis
    by (simp add: passwordResetTokens_ResetPassword)
next
  case (EvChangeTemporaryPassword x old new now d)
  with assms show ?thesis
    by simp
next
  case (EvSweep t)
  with assms show ?thesis
    by (simp add: SweepResetToken_def)
qed

lemma step_issues_registers:
  assumes "issues mac ss svc tok ev s"
  shows "passwordResetTokens (step mac ss gen cmp svc ev s) tok \<noteq> None"
proof (cases ev)
  case (EvForgotPassword email now)
  with assms show ?thesis
    by (auto simp: ForgotPassword_def split: sum.splits)
qed (use assms in simp_all)

lemma exec_keeps_absent:
  assumes "passwordResetTokens s tok = None" and "\<not> reissued mac ss gen cmp svc tok evs s"
  shows "passwordResetTokens (exec mac ss gen cmp svc evs s) tok = None"
  using assms
proof (induction evs arbitrary: s)
  case Nil
  then show ?case by simp
next
  case (Cons ev evs)
  then show ?case
    by (simp add: step_keeps_absent)
qed

lemma UpdateUserPassword_result:
  "UpdateUserPassword now None s x hashed =
     (case find (\<lambda>u. User_ID u = x) (usersCollection s) of
        None \<Rightarrow> (Some ''user not found or password not changed'', s)
      | Some u \<Rightarrow>
          if u\<lparr>User_Password := hashed, User_UpdatedAt := now\<rparr> = u
          then (Some ''user not found or password not changed'', s)
          else (None, s\<lparr>usersCollection :=
                  snd (UpdateByID User_ID x (\<lambda>u. u\<lparr>User_Password := hashed, User_UpdatedAt := now\<rparr>)
                         (usersCollection s))\<rparr>))"
proof -
  let ?upd = "\<lambda>u. u\<lparr>User_Password := hashed, User_UpdatedAt := now\<rparr>"
  let ?r = "UpdateByID User_ID x ?upd (usersCollection s)"
  show ?thesis
  proof (cases "fst ?r = 0")
    case True
    then have "snd ?r = usersCollection s"
      by (rule UpdateByID_zero_snd)
    with True UpdateByID_modified_iff [of User_ID x ?upd "usersCollection s"] show ?thesis
      by (cases ?r) (auto simp: UpdateUserPassword_def split: option.splits)
  next
    case False
    with UpdateByID_modified_iff [of User_ID x ?upd "usersCollection s"] show ?thesis
      by (cases ?r) (auto simp: UpdateUserPassword_def split: option.splits)
  qed
qed

lemma UpdateUserPassword_fault:
  "UpdateUserPassword now (Some e) s x hashed = (Some e, s)"
  by (simp add: UpdateUserPassword_def)

lemma exampleResetToken_issued:
  "GeneratePasswordResetToken exampleMac exampleSigningString 0 (oid 18)
     (passwordResetSecret exampleService) = Inr exampleResetToken"
  by (simp add: exampleResetToken_def GeneratePasswordResetToken_def SignedString_def)

lemma carol_known:
  "GetUserByEmail exampleState ''carol@example.com'' = Inr (exampleUser 18 ''carol@example.com'' 3 False)"
  by code_simp

lemma exampleIssued_eq:
  "exampleIssued = exampleState\<lparr>passwordResetTokens := [exampleResetToken \<mapsto> oid 18]\<rparr>"
  using exampleResetToken_issued carol_known
  by (simp add: exampleIssued_def ForgotPassword_def exampleUser_def exampleState_def)

text \<open>
  Claim C2, as amended. Let a user with the given e-mail address exist and let
  \<open>tok\<close> be the reset token generated for that user, so that \<^verbatim>\<open>ForgotPassword\<close>
  returns no error and registers \<open>tok\<close> for the user. In any state in which \<open>tok\<close>
  is still registered for the user, a call of \<^verbatim>\<open>ResetPassword\<close> with \<open>tok\<close>
  removes it from the registry; the call succeeds exactly when hashing the new
  password succeeds, the driver reports no error for the update, and the update
  changes the user's document, and then the stored user has the new hash; when it
  fails the users are unchanged. After that call, and after any further events
  along which no \<^verbatim>\<open>ForgotPassword\<close> issues this very token again, every call of
  \<^verbatim>\<open>ResetPassword\<close> with \<open>tok\<close> returns the invalid-or-expired error and leaves
  the state unchanged.
\<close>

theorem ResetPassword_at_most_once:
  assumes known: "GetUserByEmail s0 email = Inr user"
    and issued: "GeneratePasswordResetToken mac ss now0 (User_ID user) (passwordResetSecret svc) = Inr tok"
    and registered: "passwordResetTokens s tok = Some (User_ID user)"
    and first: "ResetPassword gen now driverErr s tok newPassword = (err, s')"
    and later: "\<not> reissued mac ss gen' cmp svc tok evs s'"
  shows "ForgotPassword mac ss now0 svc s0 email =
           (None, s0\<lparr>passwordResetTokens := (passwordResetTokens s0)(tok \<mapsto> User_ID user)\<rparr>)
       \<and> passwordResetTokens s' = (passwordResetTokens s)(tok := None)
       \<and> (err = None) =
           (case HashPassword gen newPassword of
              Inl e \<Rightarrow> False
            | Inr hashed \<Rightarrow>
                driverErr = None
                \<and> (case GetUserByID s (Hex (User_ID user)) of
                     Inl e \<Rightarrow> False
                   | Inr u \<Rightarrow> u\<lparr>User_Password := hashed, User_UpdatedAt := now\<rparr> \<noteq> u))
       \<and> (err = None \<longrightarrow>
            (\<exists>u hashed.
               GetUserByID s (Hex (User_ID user)) = Inr u
             \<and> HashPassword gen newPassword = Inr hashed
             \<and> GetUserByID s' (Hex (User_ID user)) =
                 Inr (u\<lparr>User_Password := hashed, User_UpdatedAt := now\<rparr>)))
       \<and> (err \<noteq> None \<longrightarrow> usersCollection s' = usersCollection s)
       \<and> ResetPassword gen' now' driverErr' (exec mac ss gen' cmp svc evs s') tok newPassword' =
           (Some ''invalid or expired password reset token'', exec mac ss gen' cmp svc evs s')"
proof -
  have a: "ForgotPassword mac ss now0 svc s0 email =
           (None, s0\<lparr>passwordResetTokens := (passwordResetTokens s0)(tok \<mapsto> User_ID user)\<rparr>)"
    using known issued by (simp add: ForgotPassword_def)
  have b: "passwordResetTokens s' = (passwordResetTokens s)(tok := None)"
    using passwordResetTokens_ResetPassword [of gen now driverErr s tok newPassword] first by simp
  then have "passwordResetTokens s' tok = None"
    by simp
  then have "passwordResetTokens (exec mac ss gen' cmp svc evs s') tok = None"
    using later by (rule exec_keeps_absent)
  then have f: "ResetPassword gen' now' driverErr' (exec mac ss gen' cmp svc evs s') tok newPassword' =
           (Some ''invalid or expired password reset token'', exec mac ss gen' cmp svc evs s')"
    by (rule ResetPassword_absent)
  have cde: "(err = None) =
           (case HashPassword gen newPassword of
              Inl e \<Rightarrow> False
            | Inr hashed \<Rightarrow>
                driverErr = None
                \<and> (case GetUserByID s (Hex (User_ID user)) of
                     Inl e \<Rightarrow> False
                   | Inr u \<Rightarrow> u\<lparr>User_Password := hashed, User_UpdatedAt := now\<rparr> \<noteq> u))
       \<and> (err = None \<longrightarrow>
            (\<exists>u hashed.
               GetUserByID s (Hex (User_ID user)) = Inr u
             \<and> HashPassword gen newPassword = Inr hashed
             \<and> GetUserByID s' (Hex (User_ID user)) =
                 Inr (u\<lparr>User_Password := hashed, User_UpdatedAt := now\<rparr>)))
       \<and> (err \<noteq> None \<longrightarrow> usersCollection s' = usersCollection s)"
  proof (cases "HashPassword gen newPassword")
    case (Inl e)
    with first registered show ?thesis
      by (auto simp: ResetPassword_def)
  next
    case (Inr hashed)
    show ?thesis
    proof (cases driverErr)
      case (Some e)
      with first registered Inr show ?thesis
        by (auto simp: ResetPassword_def UpdateUserPassword_fault)
    next
      case None
      note noFault = None
      show ?thesis
      proof (cases "find (\<lambda>u. User_ID u = User_ID user) (usersCollection s)")
        case None
        with first registered Inr noFault show ?thesis
          by (auto simp: ResetPassword_def UpdateUserPassword_result GetUserByID_Hex)
      next
        case (Some u)
        show ?thesis
        proof (cases "u\<lparr>User_Password := hashed, User_UpdatedAt := now\<rparr> = u")
          case True
          with first registered Inr noFault Some show ?thesis
            by (auto simp: ResetPassword_def UpdateUserPassword_result GetUserByID_Hex)
        next
          case False
          with first registered Inr noFault Some show ?thesis
            by (auto simp: ResetPassword_def UpdateUserPassword_result GetUserByID_Hex
                find_UpdateByID_same)
        qed
      qed
    qed
  qed
  from a b cde f show ?thesis
    by blast
qed

lemma usersCollection_ForgotPassword [simp]:
  "usersCollection (snd (ForgotPassword mac ss now svc s email)) = usersCollection s"
  by (simp add: ForgotPassword_def split: sum.splits)

lemma usersCollection_SweepResetToken [simp]:
  "usersCollection (SweepResetToken s tok) = usersCollection s"
  by (simp add: SweepResetToken_def)

theorem ResetPassword_at_most_once_witness:
  "fst (ResetPassword exampleGen 5 None exampleIssued exampleResetToken ''fresh-password'') = None
   \<and> GetUserByID
        (snd (ResetPassword exampleGen 5 None exampleIssued exampleResetToken ''fresh-password''))
        (Hex (oid 18)) =
       Inr ((exampleUser 18 ''carol@example.com'' 3 False)
              \<lparr>User_Password := ''bcrypt:fresh-password'', User_UpdatedAt := 5\<rparr>)
   \<and> fst (ResetPassword exampleGen 9 None
        (exec exampleMac exampleSigningString exampleGen exampleCmp exampleService
           [EvSweep exampleResetToken,
            EvForgotPassword ''carol@example.com'' (2 * Hour),
            EvForgotPassword ''dave@example.com'' 0,
            EvForgotPassword ''nobody@example.com'' 0,
            EvResetPassword exampleResetToken ''again'' (3 * Hour) None]
           (snd (ResetPassword exampleGen 5 None exampleIssued exampleResetToken ''fresh-password'')))
        exampleResetToken ''once-more'') = Some ''invalid or expired password reset token''"
proof -
  let ?first = "ResetPassword exampleGen 5 None exampleIssued exampleResetToken ''fresh-password''"
  let ?evs = "[EvSweep exampleResetToken,
            EvForgotPassword ''carol@example.com'' (2 * Hour),
            EvForgotPassword ''dave@example.com'' 0,
            EvForgotPassword ''nobody@example.com'' 0,
            EvResetPassword exampleResetToken ''again'' (3 * Hour) None]"
  have known: "GetUserByEmail exampleState ''carol@example.com'' = Inr (exampleUser 18 ''carol@example.com'' 3 False)"
    by (rule carol_known)
  have issued: "GeneratePasswordResetToken exampleMac exampleSigningString 0
      (User_ID (exampleUser 18 ''carol@example.com'' 3 False))
      (passwordResetSecret exampleService) = Inr exampleResetToken"
    using exampleResetToken_issued by (simp add: exampleUser_def)
  have registered: "passwordResetTokens exampleIssued exampleResetToken
      = Some (User_ID (exampleUser 18 ''carol@example.com'' 3 False))"
    by (simp add: exampleIssued_eq exampleUser_def)
  have h: "HashPassword exampleGen ''fresh-password'' = Inr ''bcrypt:fresh-password''"
    by (simp add: HashPassword_def exampleGen_def)
  have us: "usersCollection (snd ?first) =
      [exampleUser 16 ''alice@example.com'' 1 False,
       exampleUser 17 ''bob@example.com'' 1 True,
       (exampleUser 18 ''carol@example.com'' 3 False)
          \<lparr>User_Password := ''bcrypt:fresh-password'', User_UpdatedAt := 5\<rparr>,
       exampleUser 19 ''dave@example.com'' 3 False]"
    using h
    by (simp add: ResetPassword_def exampleIssued_eq exampleState_def UpdateUserPassword_def
        exampleUser_def oid_def)
  have g_carol: "GetUserByEmail st ''carol@example.com'' =
      Inr ((exampleUser 18 ''carol@example.com'' 3 False)
          \<lparr>User_Password := ''bcrypt:fresh-password'', User_UpdatedAt := 5\<rparr>)"
    if "usersCollection st = usersCollection (snd ?first)" for st
    by (simp add: GetUserByEmail_def that us exampleUser_def)
  have g_dave: "GetUserByEmail st ''dave@example.com'' = Inr (exampleUser 19 ''dave@example.com'' 3 False)"
    if "usersCollection st = usersCollection (snd ?first)" for st
    by (simp add: GetUserByEmail_def that us exampleUser_def)
  have g_nobody: "GetUserByEmail st ''nobody@example.com'' = Inl ''user not found''"
    if "usersCollection st = usersCollection (snd ?first)" for st
    by (simp add: GetUserByEmail_def that us exampleUser_def)
  have hex: "Hex (oid 19) \<noteq> Hex (oid 18)"
    by code_simp
  have t_carol: "GeneratePasswordResetToken exampleMac exampleSigningString (2 * Hour)
      (User_ID (exampleUser 18 ''carol@example.com'' 3 False))
      (passwordResetSecret exampleService) \<noteq> Inr exampleResetToken"
    by (simp add: exampleResetToken_def GeneratePasswordResetToken_def SignedString_def
        Unix_def Hour_def Second_def)
  have t_dave: "GeneratePasswordResetToken exampleMac exampleSigningString 0
      (User_ID (exampleUser 19 ''dave@example.com'' 3 False))
      (passwordResetSecret exampleService) \<noteq> Inr exampleResetToken"
    using hex
    by (simp add: exampleResetToken_def GeneratePasswordResetToken_def SignedString_def
        exampleUser_def)
  have later: "\<not> reissued exampleMac exampleSigningString exampleGen exampleCmp exampleService
      exampleResetToken ?evs (snd ?first)"
    by (simp add: g_carol g_dave g_nobody t_carol t_dave)
  have u: "GetUserByID exampleIssued (Hex (User_ID (exampleUser 18 ''carol@example.com'' 3 False)))
      = Inr (exampleUser 18 ''carol@example.com'' 3 False)"
    by (simp add: GetUserByID_Hex exampleIssued_eq exampleState_def exampleUser_def oid_def)
  have d: "(exampleUser 18 ''carol@example.com'' 3 False)
              \<lparr>User_Password := ''bcrypt:fresh-password'', User_UpdatedAt := 5\<rparr>
           \<noteq> exampleUser 18 ''carol@example.com'' 3 False"
    by (simp add: exampleUser_def)
  have i: "User_ID (exampleUser 18 ''carol@example.com'' 3 False) = oid 18"
    by (simp add: exampleUser_def)
  have pc: "?first = (fst ?first, snd ?first)"
    by simp
  from ResetPassword_at_most_once [where now' = 9 and driverErr' = None
      and newPassword' = "''once-more''", OF known issued registered pc later]
    h u d i
  show ?thesis
    by simp
qed

text \<open>
  Claim C2 as stated fails: the token is registered by \<^verbatim>\<open>ForgotPassword\<close>, but
  the first \<^verbatim>\<open>ResetPassword\<close> with it carries a new password of 73 bytes. The
  token is removed, hashing fails, the call returns \<open>failed to hash new password\<close>
  and no password is updated; the token cannot be used again.
\<close>

theorem ResetPassword_first_call_fails:
  "fst (ForgotPassword exampleMac exampleSigningString 0 exampleService exampleState
          ''carol@example.com'') = None
   \<and> passwordResetTokens exampleIssued exampleResetToken = Some (oid 18)
   \<and> fst (ResetPassword exampleGen 5 None exampleIssued exampleResetToken
          (replicate 73 (CHR ''x'')))
       = Some ''failed to hash new password''
   \<and> usersCollection (snd (ResetPassword exampleGen 5 None exampleIssued exampleResetToken
          (replicate 73 (CHR ''x'')))) = usersCollection exampleState
   \<and> fst (ResetPassword exampleGen 6 None
          (snd (ResetPassword exampleGen 5 None exampleIssued exampleResetToken
                  (replicate 73 (CHR ''x''))))
          exampleResetToken ''short-enough'')
       = Some ''invalid or expired password reset token''"
proof -
  have h: "HashPassword exampleGen (replicate 73 (CHR ''x'')) = Inl ''bcrypt: password length exceeds 72 bytes''"
    by (simp add: HashPassword_def exampleGen_def)
  have a: "fst (ForgotPassword exampleMac exampleSigningString 0 exampleService exampleState
          ''carol@example.com'') = None"
    using exampleResetToken_issued carol_known
    by (simp add: ForgotPassword_def exampleUser_def)
  have r: "ResetPassword exampleGen 5 None exampleIssued exampleResetToken (replicate 73 (CHR ''x''))
        = (Some ''failed to hash new password'', exampleState)"
    using h by (simp add: ResetPassword_def exampleIssued_eq exampleState_def)
  have e: "passwordResetTokens exampleState exampleResetToken = None"
    by (simp add: exampleState_def)
  from a r e show ?thesis
    by (simp add: exampleIssued_eq ResetPassword_absent)
qed


subsection \<open>Tokens: issue and verification\<close>

lemma expiry_after_issue: "now < Unix (now + 24 * Hour) * Second"
proof -
  have "(now + 86400000000000) div 1000000000 * 1000000000
        = (now + 86400000000000) - (now + 86400000000000) mod 1000000000"
    by (simp add: minus_mod_eq_div_mult)
  moreover have "(now + 86400000000000) mod 1000000000 < 1000000000"
    by simp
  ultimately show ?thesis
    by (simp add: Unix_def Hour_def Second_def)
qed

lemma jwt_Parse_signed:
  assumes "isHMAC alg" and "verifyExpiresAt claims now = None"
  shows "jwt_Parse mac ss now (Compact alg claims (mac alg key (ss alg claims))) (keyFunc key)
         = Inr \<lparr>Method = alg, Claims = claims, Valid = True\<rparr>"
  using assms by (simp add: jwt_Parse_def keyFunc_def)

lemma jwt_Parse_wrong_mac:
  assumes "isHMAC alg" and "sig \<noteq> mac alg key (ss alg claims)"
  shows "jwt_Parse mac ss now (Compact alg claims sig) (keyFunc key) = Inl ''token signature is invalid''"
  using assms by (simp add: jwt_Parse_def keyFunc_def)

text \<open>
  Claim C4. For every user id, e-mail, role id, secret and clock reading,
  \<^verbatim>\<open>GenerateToken\<close> returns a token, and \<^verbatim>\<open>ValidateToken\<close> with the same
  secret accepts it at the time of issue, and at every later time before the expiry
  the token carries (24 hours after issue, in whole seconds); the claims it returns
  have \<^verbatim>\<open>user_id\<close> equal to the hexadecimal form of the user id and \<^verbatim>\<open>role_id\<close>
  equal to that of the role id. This holds for every keyed hash and every
  serialisation of the signing string.
\<close>

theorem GenerateToken_ValidateToken_roundtrip:
  "\<exists>tok claims.
     GenerateToken mac ss now userID email roleID (jwtSecret svc) = Inr tok
   \<and> ValidateToken mac ss now svc tok = Inr claims
   \<and> map_of claims ''user_id'' = Some (Str (Hex userID))
   \<and> map_of claims ''role_id'' = Some (Str (Hex roleID))
   \<and> (now' < Unix (now + 24 * Hour) * Second \<longrightarrow> ValidateToken mac ss now' svc tok = Inr claims)"
proof -
  let ?claims = "[(''user_id'', Str (Hex userID)),
        (''email'', Str email),
        (''role_id'', Str (Hex roleID)),
        (''exp'', Num (Unix (now + 24 * Hour))),
        (''iss'', Str ''taskflow-api''),
        (''aud'', Str ''taskflow-clients'')]"
  let ?tok = "Compact ''HS256'' ?claims (mac ''HS256'' (jwtSecret svc) (ss ''HS256'' ?claims))"
  have gen: "GenerateToken mac ss now userID email roleID (jwtSecret svc) = Inr ?tok"
    by (simp add: GenerateToken_def SignedString_def)
  have alg: "isHMAC ''HS256''"
    by (simp add: isHMAC_def)
  have exp: "verifyExpiresAt ?claims t = None" if "t < Unix (now + 24 * Hour) * Second" for t
    using that by (simp add: verifyExpiresAt_def)
  have val: "ValidateToken mac ss t svc ?tok = Inr ?claims"
    if "t < Unix (now + 24 * Hour) * Second" for t
    using jwt_Parse_signed [OF alg exp [OF that], of mac ss "jwtSecret svc"]
    by (simp add: ValidateToken_def)
  have now: "ValidateToken mac ss now svc ?tok = Inr ?claims"
    using expiry_after_issue by (rule val)
  have uid: "map_of ?claims ''user_id'' = Some (Str (Hex userID))"
    by simp
  have rid: "map_of ?claims ''role_id'' = Some (Str (Hex roleID))"
    by simp
  from gen now uid rid val show ?thesis
    by blast
qed

theorem GenerateToken_ValidateToken_roundtrip_witness:
  "GenerateToken exampleMac exampleSigningString 0 (oid 16) ''alice@example.com'' (oid 1)
     (jwtSecret exampleService) = Inr exampleSessionToken
   \<and> (\<exists>claims.
         ValidateToken exampleMac exampleSigningString (23 * Hour) exampleService exampleSessionToken
           = Inr claims
       \<and> map_of claims ''user_id'' = Some (Str ''000000000000000000000010'')
       \<and> map_of claims ''role_id'' = Some (Str ''000000000000000000000001''))"
proof -
  have g: "GenerateToken exampleMac exampleSigningString 0 (oid 16) ''alice@example.com'' (oid 1)
     (jwtSecret exampleService) = Inr exampleSessionToken"
    by (simp add: exampleSessionToken_def GenerateToken_def SignedString_def)
  have t: "23 * Hour < Unix (0 + 24 * Hour) * Second"
    by (simp add: Unix_def Hour_def Second_def)
  have u: "Hex (oid 16) = ''000000000000000000000010''"
    by code_simp
  have r: "Hex (oid 1) = ''000000000000000000000001''"
    by code_simp
  from GenerateToken_ValidateToken_roundtrip [of exampleMac exampleSigningString 0 "oid 16"
      "''alice@example.com''" "oid 1" exampleService "23 * Hour"] g t u r
  show ?thesis
    by auto
qed


text \<open>
  Two keys that differ only by a trailing zero byte give the same keyed hash,
  whatever the underlying hash function: the shorter one is padded with zeros to a
  block.
\<close>


lemma hmacKeyBlock_append_zero:
  assumes "length key < blocksize"
  shows "hmacKeyBlock h blocksize (key @ [0]) = hmacKeyBlock h blocksize key"
proof -
  from assms have "replicate (blocksize - length key) (0 :: byte)
                   = 0 # replicate (blocksize - Suc (length key)) 0"
    by (metis Suc_diff_Suc replicate_Suc)
  with assms show ?thesis
    by (simp add: hmacKeyBlock_def)
qed

lemma hmac_append_zero:
  assumes "length key < blocksize"
  shows "hmac h blocksize (key @ [0]) msg = hmac h blocksize key msg"
  using assms by (simp add: hmac_def hmacKeyBlock_append_zero)

lemma issued_Compact:
  assumes "GenerateToken mac ss now userID email roleID s1 = Inr tok
         \<or> GeneratePasswordResetToken mac ss now userID s1 = Inr tok
         \<or> GenerateVerificationToken mac ss now userIDHex s1 = Inr tok"
  shows "\<exists>claims. tok = Compact ''HS256'' claims (mac ''HS256'' s1 (ss ''HS256'' claims))"
  using assms
  by (auto simp: GenerateToken_def GeneratePasswordResetToken_def GenerateVerificationToken_def
      SignedString_def)

lemma mac_differs:
  "exampleMac ''HS256'' [115, 50] (SigningString exampleSigningString exampleSessionToken)
   \<noteq> exampleMac ''HS256'' [115, 49] (SigningString exampleSigningString exampleSessionToken)"
  by code_simp

lemma length_hmacKeyBlock [simp]: "length (hmacKeyBlock h blocksize key) = blocksize"
  by (simp add: hmacKeyBlock_def Let_def)

lemma hmac_outer: "hmac h blocksize key msg = h (hmacOuter h blocksize key msg)"
  by (simp add: hmac_def hmacOuter_def)

lemma xor_pad_inj: "map (\<lambda>b. b XOR c) xs = map (\<lambda>b. b XOR c) ys \<Longrightarrow> xs = (ys :: bytes)"
proof -
  assume "map (\<lambda>b. b XOR c) xs = map (\<lambda>b. b XOR c) ys"
  then have "map (\<lambda>b. b XOR c) (map (\<lambda>b. b XOR c) xs) = map (\<lambda>b. b XOR c) (map (\<lambda>b. b XOR c) ys)"
    by simp
  moreover have "(x XOR c) XOR c = x" for x :: byte
    by (simp add: xor.assoc)
  ultimately show ?thesis
    by (simp add: comp_def)
qed

lemma hmacOuter_differs:
  assumes "hmacKeyBlock h blocksize k1 \<noteq> hmacKeyBlock h blocksize k2"
  shows "hmacOuter h blocksize k1 m1 \<noteq> hmacOuter h blocksize k2 m2"
proof
  assume "hmacOuter h blocksize k1 m1 = hmacOuter h blocksize k2 m2"
  then have "map (\<lambda>b. b XOR 0x5c) (hmacKeyBlock h blocksize k1)
             = map (\<lambda>b. b XOR 0x5c) (hmacKeyBlock h blocksize k2)"
    by (simp add: hmacOuter_def)
  then have "hmacKeyBlock h blocksize k1 = hmacKeyBlock h blocksize k2"
    by (rule xor_pad_inj)
  with assms show False
    by simp
qed

lemma same_key_block_same_hmac:
  assumes "hmacKeyBlock h blocksize k2 = hmacKeyBlock h blocksize k1"
  shows "hmac h blocksize k2 msg = hmac h blocksize k1 msg"
  using assms by (simp add: hmac_def)

lemma Validate_same_mac:
  assumes "\<And>msg. mac alg k2 msg = mac alg k1 msg"
  shows "jwt_Parse mac ss now (Compact alg claims sig) (keyFunc k2)
         = jwt_Parse mac ss now (Compact alg claims sig) (keyFunc k1)"
  using assms by (simp add: jwt_Parse_def keyFunc_def)

text \<open>
  Claim C5, as amended. The keyed hash is HMAC over a hash function \<open>h\<close> with
  64-byte blocks. Take a token produced by any of the three issuers with secret
  \<open>s1\<close>, and a secret \<open>s2\<close>. If the key block of \<open>s2\<close> (the secret, hashed
  first when longer than a block, padded with zeros to a block) differs from that
  of \<open>s1\<close>, then verification against \<open>s2\<close> fails with a signature error, in
  \<^verbatim>\<open>ValidateToken\<close> and in \<^verbatim>\<open>ValidatePasswordResetToken\<close>, at every clock
  reading, unless \<open>h\<close> takes the same value on the two different inputs of its
  outer application. If the key blocks are equal, verification against \<open>s2\<close>
  gives exactly the result of verification against \<open>s1\<close>.
\<close>

theorem other_key_block_rejected:
  assumes "GenerateToken (\<lambda>alg. hmac h 64) ss now userID email roleID s1 = Inr tok
         \<or> GeneratePasswordResetToken (\<lambda>alg. hmac h 64) ss now userID s1 = Inr tok
         \<or> GenerateVerificationToken (\<lambda>alg. hmac h 64) ss now userIDHex s1 = Inr tok"
  shows "(hmacKeyBlock h 64 s2 \<noteq> hmacKeyBlock h 64 s1 \<longrightarrow>
            (ValidateToken (\<lambda>alg. hmac h 64) ss now'
                 \<lparr>jwtSecret = s2, passwordResetSecret = other\<rparr> tok
               = Inl ''token signature is invalid''
             \<and> ValidatePasswordResetToken (\<lambda>alg. hmac h 64) ss now' tok s2
               = Inl ''token signature is invalid'')
            \<or> (hmacOuter h 64 s1 (SigningString ss tok) \<noteq> hmacOuter h 64 s2 (SigningString ss tok)
               \<and> h (hmacOuter h 64 s1 (SigningString ss tok))
                 = h (hmacOuter h 64 s2 (SigningString ss tok))))
       \<and> (hmacKeyBlock h 64 s2 = hmacKeyBlock h 64 s1 \<longrightarrow>
            ValidateToken (\<lambda>alg. hmac h 64) ss now'
                 \<lparr>jwtSecret = s2, passwordResetSecret = other\<rparr> tok
               = ValidateToken (\<lambda>alg. hmac h 64) ss now'
                 \<lparr>jwtSecret = s1, passwordResetSecret = other\<rparr> tok
            \<and> ValidatePasswordResetToken (\<lambda>alg. hmac h 64) ss now' tok s2
               = ValidatePasswordResetToken (\<lambda>alg. hmac h 64) ss now' tok s1)"
proof -
  let ?mac = "\<lambda>alg :: string. hmac h 64"
  from issued_Compact [OF assms] obtain claims
    where tok: "tok = Compact ''HS256'' claims (?mac ''HS256'' s1 (ss ''HS256'' claims))"
    by blast
  let ?m = "ss ''HS256'' claims"
  have m: "SigningString ss tok = ?m"
    by (simp add: tok SigningString_def)
  have alg: "isHMAC ''HS256''"
    by (simp add: isHMAC_def)
  have differ: "(ValidateToken ?mac ss now' \<lparr>jwtSecret = s2, passwordResetSecret = other\<rparr> tok
               = Inl ''token signature is invalid''
             \<and> ValidatePasswordResetToken ?mac ss now' tok s2 = Inl ''token signature is invalid'')
            \<or> (hmacOuter h 64 s1 ?m \<noteq> hmacOuter h 64 s2 ?m
               \<and> h (hmacOuter h 64 s1 ?m) = h (hmacOuter h 64 s2 ?m))"
    if k: "hmacKeyBlock h 64 s2 \<noteq> hmacKeyBlock h 64 s1"
  proof (cases "hmac h 64 s1 ?m = hmac h 64 s2 ?m")
    case True
    from k have "hmacOuter h 64 s1 ?m \<noteq> hmacOuter h 64 s2 ?m"
      by (intro hmacOuter_differs) simp
    with True show ?thesis
      by (simp add: hmac_outer)
  next
    case False
    from jwt_Parse_wrong_mac [where alg = "''HS256''" and mac = ?mac and ss = ss and key = s2
        and claims = claims and sig = "hmac h 64 s1 ?m" and now = now', OF alg False] tok
    show ?thesis
      by (simp add: ValidateToken_def ValidatePasswordResetToken_def)
  qed
  have same: "ValidateToken ?mac ss now' \<lparr>jwtSecret = s2, passwordResetSecret = other\<rparr> tok
               = ValidateToken ?mac ss now' \<lparr>jwtSecret = s1, passwordResetSecret = other\<rparr> tok
            \<and> ValidatePasswordResetToken ?mac ss now' tok s2
               = ValidatePasswordResetToken ?mac ss now' tok s1"
    if k: "hmacKeyBlock h 64 s2 = hmacKeyBlock h 64 s1"
  proof -
    have "jwt_Parse ?mac ss now' tok (keyFunc s2) = jwt_Parse ?mac ss now' tok (keyFunc s1)"
      unfolding tok by (rule Validate_same_mac) (simp add: same_key_block_same_hmac [OF k])
    then show ?thesis
      by (simp add: ValidateToken_def ValidatePasswordResetToken_def)
  qed
  from differ same show ?thesis
    by (simp add: m)
qed

lemma exampleMac_hmac: "exampleMac = (\<lambda>alg. hmac exampleHash 64)"
  by (rule ext) (simp add: exampleMac_def)

theorem other_key_block_rejected_witness:
  "hmacKeyBlock exampleHash 64 [115, 50] \<noteq> hmacKeyBlock exampleHash 64 [115, 49]
   \<and> ValidateToken exampleMac exampleSigningString 0
       \<lparr>jwtSecret = [115, 50], passwordResetSecret = []\<rparr> exampleSessionToken
     = Inl ''token signature is invalid''
   \<and> ValidatePasswordResetToken exampleMac exampleSigningString 0 exampleSessionToken [115, 50]
     = Inl ''token signature is invalid''
   \<and> hmacKeyBlock exampleHash 64 [115, 49, 0] = hmacKeyBlock exampleHash 64 [115, 49]
   \<and> ValidateToken exampleMac exampleSigningString 0
       \<lparr>jwtSecret = [115, 49, 0], passwordResetSecret = []\<rparr> exampleSessionToken
     = ValidateToken exampleMac exampleSigningString 0
       \<lparr>jwtSecret = [115, 49], passwordResetSecret = []\<rparr> exampleSessionToken"
proof -
  have g: "GenerateToken (\<lambda>alg. hmac exampleHash 64) exampleSigningString 0 (oid 16)
       ''alice@example.com'' (oid 1) [115, 49] = Inr exampleSessionToken"
    by (simp add: exampleSessionToken_def exampleService_def GenerateToken_def SignedString_def
        exampleMac_hmac)
  then have i: "GenerateToken (\<lambda>alg. hmac exampleHash 64) exampleSigningString 0 (oid 16)
         ''alice@example.com'' (oid 1) [115, 49] = Inr exampleSessionToken
       \<or> GeneratePasswordResetToken (\<lambda>alg. hmac exampleHash 64) exampleSigningString 0 (oid 16)
         [115, 49] = Inr exampleSessionToken
       \<or> GenerateVerificationToken (\<lambda>alg. hmac exampleHash 64) exampleSigningString 0 [] [115, 49]
         = Inr exampleSessionToken"
    by (rule disjI1)
  have k: "hmacKeyBlock exampleHash 64 [115, 50] \<noteq> hmacKeyBlock exampleHash 64 [115, 49]"
    by (simp add: hmacKeyBlock_def)
  have d: "exampleHash (hmacOuter exampleHash 64 [115, 49]
             (SigningString exampleSigningString exampleSessionToken))
         \<noteq> exampleHash (hmacOuter exampleHash 64 [115, 50]
             (SigningString exampleSigningString exampleSessionToken))"
    using mac_differs by (simp add: exampleMac_def hmac_outer)
  have k': "hmacKeyBlock exampleHash 64 [115, 49, 0] = hmacKeyBlock exampleHash 64 [115, 49]"
    using hmacKeyBlock_append_zero [of "[115, 49]" 64 exampleHash] by simp
  have a: "ValidateToken exampleMac exampleSigningString 0
       \<lparr>jwtSecret = [115, 50], passwordResetSecret = []\<rparr> exampleSessionToken
     = Inl ''token signature is invalid''
   \<and> ValidatePasswordResetToken exampleMac exampleSigningString 0 exampleSessionToken [115, 50]
     = Inl ''token signature is invalid''"
    using other_key_block_rejected [OF i, of "[115, 50]" 0 "[]"] k d
    by (simp add: exampleMac_hmac)
  have b: "ValidateToken exampleMac exampleSigningString 0
       \<lparr>jwtSecret = [115, 49, 0], passwordResetSecret = []\<rparr> exampleSessionToken
     = ValidateToken exampleMac exampleSigningString 0
       \<lparr>jwtSecret = [115, 49], passwordResetSecret = []\<rparr> exampleSessionToken"
    using other_key_block_rejected [OF i, of "[115, 49, 0]" 0 "[]"] k'
    by (simp add: exampleMac_hmac)
  from k a k' b show ?thesis
    by blast
qed

text \<open>
  Claim C5 as stated fails: the session token signed with the two-byte secret of the
  example service is accepted by \<^verbatim>\<open>ValidateToken\<close> under the different
  three-byte secret that appends a zero byte, because \<^verbatim>\<open>crypto/hmac\<close> pads both
  to the same key block. By \<open>hmac_append_zero\<close> this does not depend on the hash.
\<close>

theorem other_secret_accepted:
  "[115, 49, 0] \<noteq> jwtSecret exampleService
   \<and> GenerateToken exampleMac exampleSigningString 0 (oid 16) ''alice@example.com'' (oid 1)
       (jwtSecret exampleService) = Inr exampleSessionToken
   \<and> ValidateToken exampleMac exampleSigningString 0
       \<lparr>jwtSecret = [115, 49, 0], passwordResetSecret = []\<rparr> exampleSessionToken =
     Inr [(''user_id'', Str (Hex (oid 16))),
          (''email'', Str ''alice@example.com''),
          (''role_id'', Str (Hex (oid 1))),
          (''exp'', Num 86400),
          (''iss'', Str ''taskflow-api''),
          (''aud'', Str ''taskflow-clients'')]"
proof -
  let ?claims = "[(''user_id'', Str (Hex (oid 16))),
          (''email'', Str ''alice@example.com''),
          (''role_id'', Str (Hex (oid 1))),
          (''exp'', Num 86400),
          (''iss'', Str ''taskflow-api''),
          (''aud'', Str ''taskflow-clients'')]"
  have k: "exampleMac ''HS256'' [115, 49, 0] m = exampleMac ''HS256'' [115, 49] m" for m
    using hmac_append_zero [of "[115, 49]" 64 exampleHash m] by (simp add: exampleMac_def)
  have e: "Unix (24 * Hour) = 86400"
    by (simp add: Unix_def Hour_def Second_def)
  have g: "GenerateToken exampleMac exampleSigningString 0 (oid 16) ''alice@example.com'' (oid 1)
       (jwtSecret exampleService) = Inr exampleSessionToken"
    by (simp add: exampleSessionToken_def GenerateToken_def SignedString_def)
  have tok: "exampleSessionToken =
      Compact ''HS256'' ?claims
        (exampleMac ''HS256'' [115, 49, 0] (exampleSigningString ''HS256'' ?claims))"
    by (simp add: exampleSessionToken_def GenerateToken_def SignedString_def e k
        exampleService_def)
  have alg: "isHMAC ''HS256''"
    by (simp add: isHMAC_def)
  have x: "verifyExpiresAt ?claims 0 = None"
    by (simp add: verifyExpiresAt_def Second_def)
  have v: "ValidateToken exampleMac exampleSigningString 0
       \<lparr>jwtSecret = [115, 49, 0], passwordResetSecret = []\<rparr> exampleSessionToken = Inr ?claims"
    by (subst tok)
       (simp only: ValidateToken_def AuthService.simps jwt_Parse_signed [OF alg x] sum.case
          Token.simps if_True)
  have n: "[115, 49, 0] \<noteq> jwtSecret exampleService"
    by (simp add: exampleService_def)
  from n g v show ?thesis
    by simp
qed

end
